theory Spec2Isabelle
  imports Complex_Main "HOL-Library.Sublist"
begin

section \<open>JavaScript strings\<close>

text \<open>
  A string is a list of UTF-16 code units, each a natural number. \<open>js\<close> turns a literal
  of the theory into such a string, one code unit per character.
\<close>

type_synonym jschar = nat

type_synonym jsstring = "jschar list"

definition ch :: "char \<Rightarrow> jschar" where
  "ch c = of_char c"

definition js :: "string \<Rightarrow> jsstring" where
  "js s = map ch s"

text \<open>A word between single quotes (U+0027).\<close>

definition quoted :: "jsstring \<Rightarrow> jsstring" where
  "quoted s = [39] @ s @ [39]"

text \<open>
  \<open>toLowerCase\<close> maps the capital letters of ASCII and of Latin-1 (U+00C0 to U+00DE
  without the multiplication sign U+00D7) to their small letters and the Kelvin sign
  U+212A to \<open>k\<close>. Every other code unit is kept: a letter beyond U+00FF has a lower-case
  form without ASCII letters, except U+0130, whose form is \<open>i\<close> followed by U+0307, so that
  no ASCII word the program looks for can begin, continue or end there differently.
\<close>

definition lowerChar :: "jschar \<Rightarrow> jschar" where
  "lowerChar c =
     (if (65 \<le> c \<and> c \<le> 90) \<or> (192 \<le> c \<and> c \<le> 222 \<and> c \<noteq> 215) then c + 32
      else if c = 0x212A then 107
      else c)"

definition toLowerCase :: "jsstring \<Rightarrow> jsstring" where
  "toLowerCase s = map lowerChar s"

text \<open>\<open>s.includes(p)\<close>: \<open>p\<close> occurs in \<open>s\<close> as a contiguous substring.\<close>

fun str_includes :: "jsstring \<Rightarrow> jsstring \<Rightarrow> bool" where
  "str_includes [] p = (p = [])"
| "str_includes (c # cs) p = (prefix p (c # cs) \<or> str_includes cs p)"

definition endsWith :: "jsstring \<Rightarrow> jsstring \<Rightarrow> bool" where
  "endsWith s p = (length p \<le> length s \<and> drop (length s - length p) s = p)"

definition startsWith :: "jsstring \<Rightarrow> jsstring \<Rightarrow> bool" where
  "startsWith s p = (take (length p) s = p)"

text \<open>
  The code units that \<open>trim\<close>, \<open>trimStart\<close> and \<open>Number\<close> strip: the white space of
  ECMAScript (TAB, VT, FF, the byte order mark U+FEFF and the space separators U+0020,
  U+00A0, U+1680, U+2000 to U+200A, U+202F, U+205F, U+3000) and its line terminators
  (LF, CR, U+2028, U+2029).
\<close>

definition isWhiteSpace :: "jschar \<Rightarrow> bool" where
  "isWhiteSpace c =
     (c \<in> {0x09, 0x0A, 0x0B, 0x0C, 0x0D, 0x20, 0xA0, 0x1680, 0x2028, 0x2029, 0x202F, 0x205F,
            0x3000, 0xFEFF} \<or>
      (0x2000 \<le> c \<and> c \<le> 0x200A))"

definition trimStart :: "jsstring \<Rightarrow> jsstring" where
  "trimStart s = dropWhile isWhiteSpace s"

definition trimEnd :: "jsstring \<Rightarrow> jsstring" where
  "trimEnd s = rev (dropWhile isWhiteSpace (rev s))"

definition trim :: "jsstring \<Rightarrow> jsstring" where
  "trim s = trimEnd (trimStart s)"

text \<open>\<open>text.split('\n')\<close>: always at least one piece.\<close>

fun split_lines :: "jsstring \<Rightarrow> jsstring list" where
  "split_lines [] = [[]]"
| "split_lines (c # cs) =
     (if c = 10 then [] # split_lines cs
      else (c # hd (split_lines cs)) # tl (split_lines cs))"

text \<open>\<open>lines.join('\n')\<close>.\<close>

fun join_lines :: "jsstring list \<Rightarrow> jsstring" where
  "join_lines [] = []"
| "join_lines [l] = l"
| "join_lines (l # ls) = l @ [10] @ join_lines ls"

text \<open>\<open>column.replace(/_/g, ' ')\<close>: every underscore (95) becomes a space (32).\<close>

definition replace_underscores :: "jsstring \<Rightarrow> jsstring" where
  "replace_underscores s = map (\<lambda>c. if c = 95 then 32 else c) s"

text \<open>Decimal digits of a natural number, as \<open>n.toString()\<close> prints a non-negative integer.\<close>

definition digitChar :: "nat \<Rightarrow> jschar" where
  "digitChar d = 48 + d"

fun decimal :: "nat \<Rightarrow> jsstring" where
  "decimal n = (if n < 10 then [digitChar n] else decimal (n div 10) @ [digitChar (n mod 10)])"

declare decimal.simps [simp del]

section \<open>JavaScript values\<close>

text \<open>
  A number is \<open>NaN\<close>, an infinity with its sign, or a finite double. A finite double is
  given by its sign and its shortest decimal form, the digits and the power of ten that
  \<open>String\<close> prints for it and that the engine's formatters start from: \<open>Finite s d e\<close> is
  \<open>(-1)^s * d * 10^e\<close>, so 1234.5 is \<open>Finite False 12345 (-1)\<close> and \<open>-0\<close> is
  \<open>Finite True 0 0\<close>. The cells of a result row and the fields of a JSON body are
  \<open>undefined\<close> (a property that is absent), \<open>null\<close>, booleans, numbers and strings.
\<close>

datatype jsnum = NaN | Infinity bool | Finite bool nat int

datatype jsval = JUndefined | JNull | JBool bool | JNumber jsnum | JString jsstring

text \<open>\<open>typeof v === 'number'\<close>, \<open>'string'\<close>, \<open>'boolean'\<close>.\<close>

fun isNumber :: "jsval \<Rightarrow> bool" where
  "isNumber (JNumber n) = True"
| "isNumber v = False"

fun isString :: "jsval \<Rightarrow> bool" where
  "isString (JString s) = True"
| "isString v = False"

fun isBoolean :: "jsval \<Rightarrow> bool" where
  "isBoolean (JBool b) = True"
| "isBoolean v = False"

text \<open>Truthiness of a value, as \<open>!v\<close> and \<open>v && ...\<close> test it.\<close>

fun truthy :: "jsval \<Rightarrow> bool" where
  "truthy JUndefined = False"
| "truthy JNull = False"
| "truthy (JBool b) = b"
| "truthy (JNumber NaN) = False"
| "truthy (JNumber (Infinity s)) = True"
| "truthy (JNumber (Finite s d e)) = (d \<noteq> 0)"
| "truthy (JString s) = (s \<noteq> [])"

text \<open>
  The host functions that depend on the machine's locale and time zone, or that print a
  double in shortest form, are parameters of the model: \<open>new Date(v).toLocaleString()\<close>
  and \<open>String(n)\<close> for a number \<open>n\<close>.
\<close>

record host =
  dateToLocaleString :: "jsval \<Rightarrow> jsstring"
  numberToString :: "jsnum \<Rightarrow> jsstring"

text \<open>\<open>String(v)\<close>.\<close>

fun String_js :: "host \<Rightarrow> jsval \<Rightarrow> jsstring" where
  "String_js h JUndefined = js ''undefined''"
| "String_js h JNull = js ''null''"
| "String_js h (JBool b) = (if b then js ''true'' else js ''false'')"
| "String_js h (JNumber n) = numberToString h n"
| "String_js h (JString s) = s"

subsection \<open>Number formatting for the locale en-US with exactly two fraction digits\<close>

text \<open>
  \<open>n.toLocaleString('en-US', {minimumFractionDigits: 2, maximumFractionDigits: 2})\<close>
  takes the shortest decimal form of a finite number, rounds it to hundredths, a tie going
  away from zero, groups the integer digits in threes with commas and prints two fraction
  digits after a point. A negative sign, also that of \<open>-0\<close>, prints a leading minus. With
  \<open>style: 'currency', currency: 'USD'\<close> a dollar sign follows the minus. \<open>NaN\<close> prints
  as \<open>NaN\<close> and an infinity as the sign U+221E, both without fraction digits.
\<close>

definition hundredths :: "nat \<Rightarrow> int \<Rightarrow> nat" where
  "hundredths d e =
     (if 0 \<le> e then 100 * d * 10 ^ nat e
      else (200 * d + 10 ^ nat (- e)) div (2 * 10 ^ nat (- e)))"

fun group3 :: "jsstring \<Rightarrow> jsstring" where
  "group3 ds = (if length ds \<le> 3 then ds
                else group3 (take (length ds - 3) ds) @ [44] @ drop (length ds - 3) ds)"

declare group3.simps [simp del]

definition fixed2 :: "nat \<Rightarrow> jsstring" where
  "fixed2 n = group3 (decimal (n div 100)) @ [46] @
              [digitChar ((n mod 100) div 10), digitChar (n mod 10)]"

definition minusSign :: "bool \<Rightarrow> jsstring" where
  "minusSign s = (if s then js ''-'' else [])"

fun toLocaleString_number :: "jsnum \<Rightarrow> jsstring" where
  "toLocaleString_number NaN = js ''NaN''"
| "toLocaleString_number (Infinity s) = minusSign s @ [0x221E]"
| "toLocaleString_number (Finite s d e) = minusSign s @ fixed2 (hundredths d e)"

fun toLocaleString_currency :: "jsnum \<Rightarrow> jsstring" where
  "toLocaleString_currency NaN = js ''$NaN''"
| "toLocaleString_currency (Infinity s) = minusSign s @ js ''$'' @ [0x221E]"
| "toLocaleString_currency (Finite s d e) = minusSign s @ js ''$'' @ fixed2 (hundredths d e)"

section \<open>Cell formatting (ChatInterface)\<close>

definition isDateColumn :: "jsstring \<Rightarrow> bool" where
  "isDateColumn columnName =
     (str_includes (toLowerCase columnName) (js ''date'') \<or>
      str_includes (toLowerCase columnName) (js ''time''))"

definition isCurrencyColumn :: "jsstring \<Rightarrow> bool" where
  "isCurrencyColumn columnName =
     (str_includes (toLowerCase columnName) (js ''amount'') \<or>
      str_includes (toLowerCase columnName) (js ''price'') \<or>
      str_includes (toLowerCase columnName) (js ''revenue'') \<or>
      str_includes (toLowerCase columnName) (js ''total''))"

definition formatValue :: "host \<Rightarrow> jsval \<Rightarrow> jsstring \<Rightarrow> jsstring" where
  "formatValue h v columnName =
     (if v = JNull \<or> v = JUndefined then js ''N/A''
      else if isDateColumn columnName then dateToLocaleString h v
      else if isCurrencyColumn columnName then
        (case v of JNumber n \<Rightarrow> toLocaleString_currency n | _ \<Rightarrow> String_js h v)
      else (case v of JNumber n \<Rightarrow> toLocaleString_number n | _ \<Rightarrow> String_js h v))"

definition getColumnType :: "jsstring \<Rightarrow> jsval \<Rightarrow> jsstring" where
  "getColumnType columnName sampleValue =
     (if isDateColumn columnName then js ''date''
      else if isCurrencyColumn columnName then js ''currency''
      else if isNumber sampleValue then js ''number''
      else js ''text'')"

section \<open>Messages and their rendering (ChatInterface)\<close>

text \<open>
  A result row is an object; its properties are kept in the order \<open>Object.keys\<close>
  lists them. \<open>row[column]\<close> is \<open>undefined\<close> for a property the row lacks.
\<close>

type_synonym row = "(jsstring \<times> jsval) list"

definition Object_keys :: "row \<Rightarrow> jsstring list" where
  "Object_keys r = map fst r"

definition getProp :: "row \<Rightarrow> jsstring \<Rightarrow> jsval" where
  "getProp r k = (case map_of r k of None \<Rightarrow> JUndefined | Some v \<Rightarrow> v)"

datatype role = User | Assistant

text \<open>
  The interface \<open>Message\<close>. An optional field is an option; \<open>id\<close> holds the number whose
  decimal digits the source stores, \<open>timestamp\<close> the clock reading. The field
  \<open>visualization\<close> is never written or read by the component and is left out.
\<close>

record message =
  msg_id :: nat
  content :: jsstring
  role :: role
  timestamp :: nat
  explanation :: "jsstring option"
  summary :: "jsstring option"
  query :: "jsstring option"
  data :: "row list option"
  msg_type :: "jsstring option"

text \<open>An optional string is truthy when it is defined and not empty.\<close>

fun truthy_str :: "jsstring option \<Rightarrow> bool" where
  "truthy_str None = False"
| "truthy_str (Some s) = (s \<noteq> [])"

text \<open>\<open>a || b\<close> on optional strings.\<close>

definition or_else :: "jsstring option \<Rightarrow> jsstring option \<Rightarrow> jsstring option" where
  "or_else a b = (if truthy_str a then a else b)"

subsection \<open>processMessageContent\<close>

datatype content_block = Paragraph jsstring | BulletList "jsstring list"

definition renderParagraph :: "content_block list \<Rightarrow> jsstring list \<Rightarrow> content_block list" where
  "renderParagraph elements paragraphLines =
     (if paragraphLines \<noteq> [] then elements @ [Paragraph (join_lines paragraphLines)]
      else elements)"

definition renderList :: "content_block list \<Rightarrow> jsstring list \<Rightarrow> content_block list" where
  "renderList elements listItems =
     (if listItems \<noteq> []
      then elements @ [BulletList (map (\<lambda>item. trim (drop 1 (trimStart item))) listItems)]
      else elements)"

text \<open>
  The body of \<open>lines.forEach\<close>: the state is the elements pushed so far, the pending
  paragraph lines and the pending list items.
\<close>

definition processLine ::
  "content_block list \<times> jsstring list \<times> jsstring list \<Rightarrow> jsstring \<Rightarrow>
   content_block list \<times> jsstring list \<times> jsstring list" where
  "processLine st line =
     (case st of (elements, currentParagraphLines, currentListItems) \<Rightarrow>
        if startsWith (trim line) (js ''*'')
        then (renderParagraph elements currentParagraphLines, [], currentListItems @ [line])
        else (renderList elements currentListItems, currentParagraphLines @ [line], []))"

definition processMessageContent :: "jsstring option \<Rightarrow> content_block list option" where
  "processMessageContent text =
     (case text of
        None \<Rightarrow> None
      | Some t \<Rightarrow>
          if t = [] then None
          else (case foldl processLine ([], [], []) (split_lines t) of
                  (elements, currentParagraphLines, currentListItems) \<Rightarrow>
                    Some (renderList (renderParagraph elements currentParagraphLines)
                            currentListItems)))"

subsection \<open>renderDataTable\<close>

text \<open>
  The rendered table: per column the header label and whether it is right-aligned (its
  column type is number or currency), the formatted cells row by row, and the footer.
\<close>

record data_table =
  headers :: "(jsstring \<times> bool) list"
  cells :: "jsstring list list"
  footer :: jsstring

text \<open>
  What a message renders to, read off the JSX top to bottom: the cards of the two special
  types, a text bubble holding processed content, the SQL block, and what
  \<open>renderDataTable\<close> returns (the notice, or the table followed by its Visualize button,
  whose click hands the rows to \<open>onVisualizeData\<close>).
\<close>

datatype node =
    DatasetSummaryCard "jsstring option" "content_block list option"
  | NoDatasetCard jsstring
  | TextBubble "content_block list"
  | SqlBlock jsstring
  | NoDataNotice
  | DataTable data_table
  | VisualizeButton "row list"

definition rightAligned :: "jsstring \<Rightarrow> bool" where
  "rightAligned columnType = (columnType = (js ''number'') \<or> columnType = (js ''currency''))"

definition renderDataTable :: "host \<Rightarrow> row list \<Rightarrow> node list" where
  "renderDataTable h rows =
     (case rows of
        [] \<Rightarrow> [NoDataNotice]
      | first # _ \<Rightarrow>
          let columns = Object_keys first in
          [DataTable \<lparr>
             headers = map (\<lambda>column. (replace_underscores column,
                                       rightAligned (getColumnType column (getProp first column))))
                           columns,
             cells = map (\<lambda>r. map (\<lambda>column. formatValue h (getProp r column) column) columns) rows,
             footer = (js ''Showing '') @ decimal (length rows) @ (js '' '') @
                      (if length rows = 1 then (js ''row'') else (js ''rows'')) \<rparr>,
           VisualizeButton rows])"

subsection \<open>renderAssistantMessage\<close>

definition nonDataTypes :: "jsstring list" where
  "nonDataTypes = [(js ''knowledge_base''), (js ''greeting''), (js ''help''), (js ''ai_info''), (js ''operation''),
                   (js ''general_knowledge''), (js ''out_of_scope''), (js ''error'')]"

definition showsSql :: "jsstring option \<Rightarrow> bool" where
  "showsSql q =
     (case q of
        None \<Rightarrow> False
      | Some s \<Rightarrow>
          s \<noteq> [] \<and>
          str_includes (toLowerCase s) (js ''select'') \<and>
          \<not> str_includes (toLowerCase s) (quoted (js ''greeting'')) \<and>
          \<not> str_includes (toLowerCase s) (quoted (js ''ai_info'')) \<and>
          \<not> str_includes (toLowerCase s) (quoted (js ''help'')) \<and>
          \<not> str_includes (toLowerCase s) (quoted (js ''out_of_scope'')))"

definition textBubble :: "jsstring option \<Rightarrow> node list" where
  "textBubble t =
     (if truthy_str t
      then [TextBubble (case processMessageContent t of None \<Rightarrow> [] | Some bs \<Rightarrow> bs)]
      else [])"

definition renderAssistantMessage :: "host \<Rightarrow> message \<Rightarrow> node list" where
  "renderAssistantMessage h m =
     (if msg_type m = Some (js ''dataset_summary'') then
        [DatasetSummaryCard
           (if truthy_str (summary m) then summary m else None)
           (if truthy_str (explanation m) then processMessageContent (explanation m) else None)]
      else if msg_type m = Some (js ''no_dataset'') then
        [NoDatasetCard
           (if truthy_str (explanation m) then the (explanation m)
            else js ''Please upload a dataset first, and then I'' @ [39] @
                 js ''ll be happy to help you analyze it!'')]
      else
        let mainText = or_else (summary m) (explanation m) in
        if truthy_str (msg_type m) \<and> the (msg_type m) \<in> set nonDataTypes then
          textBubble (explanation m)
        else
          textBubble mainText @
          (if showsSql (query m) then [SqlBlock (the (query m))] else []) @
          (case data m of
             None \<Rightarrow> []
           | Some rows \<Rightarrow> if length rows > 0 then renderDataTable h rows else []))"

section \<open>Submitting a chat message (ChatInterface.handleSubmit)\<close>

text \<open>The entries of the history payload and the body of the chat request.\<close>

record history_entry =
  user :: "jsstring option"
  assistant :: "jsstring option"

record chat_request =
  request_message :: jsstring
  history :: "history_entry list"

text \<open>The interface \<open>ChatResponse\<close>, without \<open>visualization\<close>, which \<open>handleSubmit\<close> ignores.\<close>

record chat_response =
  response_query :: jsstring
  response_explanation :: jsstring
  response_summary :: "jsstring option"
  response_data :: "row list option"
  response_sql :: "jsstring option"
  response_type :: "jsstring option"

text \<open>
  The component's state: the message log, the text of the input field and the loading
  flag. \<open>requests\<close> records the calls of \<open>sendMessage\<close> and \<open>executed\<close> the calls of
  \<open>onQueryExecute\<close>, in order.
\<close>

record chat_state =
  messages :: "message list"
  input :: jsstring
  isLoading :: bool
  requests :: "chat_request list"
  executed :: "jsstring list"

text \<open>\<open>messages.slice(-10)\<close>.\<close>

definition slice_last :: "nat \<Rightarrow> 'a list \<Rightarrow> 'a list" where
  "slice_last n xs = drop (length xs - n) xs"

definition history_of :: "message \<Rightarrow> history_entry" where
  "history_of m =
     \<lparr> user = (if role m = User then Some (content m) else None),
       assistant = (if role m = Assistant
                    then or_else (summary m) (or_else (explanation m) (Some (content m)))
                    else None) \<rparr>"

definition build_history :: "message list \<Rightarrow> history_entry list" where
  "build_history ms =
     filter (\<lambda>h. truthy_str (user h) \<or> truthy_str (assistant h))
            (map history_of (slice_last 10 ms))"

definition userMessage :: "nat \<Rightarrow> jsstring \<Rightarrow> message" where
  "userMessage now text =
     \<lparr> msg_id = now, content = trim text, role = User, timestamp = now,
       explanation = None, summary = None, query = None, data = None, msg_type = None \<rparr>"

definition assistantMessage :: "nat \<Rightarrow> chat_response \<Rightarrow> message" where
  "assistantMessage now r =
     \<lparr> msg_id = now + 1, content = [], role = Assistant, timestamp = now,
       explanation = Some (response_explanation r), summary = response_summary r,
       query = Some (response_query r), data = response_data r,
       msg_type = response_type r \<rparr>"

definition errorMessage :: "nat \<Rightarrow> message" where
  "errorMessage now =
     \<lparr> msg_id = now + 1, content = (js ''Sorry, I encountered an error. Please try again.''),
       role = Assistant, timestamp = now,
       explanation = None, summary = None, query = None, data = None, msg_type = None \<rparr>"

text \<open>
  The part of \<open>handleSubmit\<close> that runs before the first \<open>await\<close>. An input that trims
  to the empty jsstring returns at once. Otherwise the user turn is appended and the request
  is sent; its history is built from the log the handler closed over, which does not hold
  the new user turn. The notification of the parent (\<open>onMessagesChange\<close>) changes nothing
  in this state and is left out.
\<close>

definition handleSubmit_send :: "nat \<Rightarrow> chat_state \<Rightarrow> chat_state" where
  "handleSubmit_send now s =
     (if trim (input s) = [] then s
      else s \<lparr> input := [],
               messages := messages s @ [userMessage now (input s)],
               isLoading := True,
               requests := requests s @
                 [\<lparr> request_message = trim (input s),
                    history = build_history (messages s) \<rparr>] \<rparr>)"

text \<open>
  How an awaited promise settles. \<open>sendMessage\<close> resolves with a response or rejects;
  the callback \<open>onQueryExecute\<close> resolves or rejects.
\<close>

datatype 'a settled = Rejected | Resolved 'a

text \<open>
  The rest of \<open>handleSubmit\<close>, run when the request settles, on the state of that
  moment. A rejection anywhere in the \<open>try\<close> block, also one of \<open>onQueryExecute\<close>
  after the assistant turn was appended, runs the \<open>catch\<close> block.
\<close>

definition handleSubmit_settle ::
  "(jsstring \<Rightarrow> unit settled) \<Rightarrow> nat \<Rightarrow> chat_response settled \<Rightarrow> chat_state \<Rightarrow> chat_state" where
  "handleSubmit_settle onQueryExecute now outcome s =
     (case outcome of
        Rejected \<Rightarrow> s \<lparr> messages := messages s @ [errorMessage now], isLoading := False \<rparr>
      | Resolved r \<Rightarrow>
          let s1 = s \<lparr> messages := messages s @ [assistantMessage now r] \<rparr> in
          if truthy_str (response_sql r) then
            (case onQueryExecute (the (response_sql r)) of
               Resolved _ \<Rightarrow>
                 s1 \<lparr> executed := executed s1 @ [the (response_sql r)], isLoading := False \<rparr>
             | Rejected \<Rightarrow>
                 s1 \<lparr> executed := executed s1 @ [the (response_sql r)],
                      messages := messages s1 @ [errorMessage now],
                      isLoading := False \<rparr>)
          else s1 \<lparr> isLoading := False \<rparr>)"

text \<open>The callback that \<open>App\<close> passes for \<open>onQueryExecute\<close>: \<open>async () => {}\<close>.\<close>

definition App_onQueryExecute :: "jsstring \<Rightarrow> unit settled" where
  "App_onQueryExecute sql = Resolved ()"

section \<open>Choosing a file to upload (DatasetUpload)\<close>

record upload_file =
  file_name :: jsstring
  file_content :: jsstring

text \<open>
  The component's state (\<open>current_file\<close> is its \<open>file\<close>), the parent's \<open>uploadSuccess\<close> flag that it sets, and the files
  handed to \<open>uploadDataset\<close>, the component's only network call.
\<close>

record upload_state =
  current_file :: "upload_file option"
  isUploading :: bool
  error :: "jsstring option"
  dragActive :: bool
  uploadSuccess :: bool
  uploads :: "upload_file list"

definition handleFile :: "upload_file \<Rightarrow> upload_state \<Rightarrow> upload_state" where
  "handleFile selectedFile s =
     (if \<not> endsWith (file_name selectedFile) (js ''.csv'')
      then s \<lparr> error := Some (js ''Please upload a CSV file'') \<rparr>
      else s \<lparr> current_file := Some selectedFile, error := None, uploadSuccess := False \<rparr>)"

text \<open>
  The upload form's \<open>handleSubmit\<close>; \<open>outcome\<close> is how \<open>uploadDataset\<close> settles, a
  rejection carrying the message that is shown. On success the parent's
  \<open>onDatasetUploaded\<close> receives the dataset; the component's own state only leaves the
  uploading phase.
\<close>

definition upload_handleSubmit :: "(jsstring + unit) \<Rightarrow> upload_state \<Rightarrow> upload_state" where
  "upload_handleSubmit outcome s =
     (case current_file s of
        None \<Rightarrow> s \<lparr> error := Some (js ''Please select a file to upload'') \<rparr>
      | Some f \<Rightarrow>
          let s1 = s \<lparr> isUploading := True, error := None, uploadSuccess := False,
                        uploads := uploads s @ [f] \<rparr> in
          (case outcome of
             Inl msg \<Rightarrow> s1 \<lparr> error := Some msg, isUploading := False \<rparr>
           | Inr _ \<Rightarrow> s1 \<lparr> isUploading := False \<rparr>))"

section \<open>The SQL pass-through endpoint (POST /execute)\<close>

record field_packet =
  field_name :: jsstring

text \<open>
  What \<open>connection.execute(sql)\<close> of mysql2 resolves with, as the pair
  \<open>[rows, fields]\<close>. A statement that returns rows gives the rows and the packets of
  their fields. Any other statement (INSERT, UPDATE, DELETE, DDL) gives a result header in
  place of the rows and \<open>undefined\<close> in place of the fields. Calls that return several
  result sets are not modelled.
\<close>

record result_header =
  affectedRows :: nat
  insertId :: nat

datatype query_result =
    RowSet "row list" "field_packet list"
  | Header result_header

text \<open>
  The database behind the pool: \<open>pool.getConnection()\<close> rejects with an error or gives a
  connection, and \<open>connection.execute(sql)\<close> rejects with an error or resolves. Errors
  are their messages.
\<close>

record database =
  getConnection :: "jsstring option"
  execute :: "jsval \<Rightarrow> jsstring + query_result"

text \<open>
  \<open>executeQuery\<close>: the result \<open>{rows, fields}\<close> or the error thrown, and the statements
  handed to \<open>connection.execute\<close>. The connection is released on both paths.
\<close>

definition executeQuery :: "database \<Rightarrow> jsval \<Rightarrow> (jsstring + query_result) \<times> jsval list" where
  "executeQuery db sql =
     (case getConnection db of
        Some e \<Rightarrow> (Inl e, [])
      | None \<Rightarrow> (execute db sql, [sql]))"

datatype json_body =
    ErrorBody jsstring
  | ResultBody (body_sql: jsval) (body_data: "row list") (body_columns: "jsstring list")
               (body_executionTime: int) (body_rowCount: nat)

text \<open>
  What one request does: the HTTP status and body sent, the statements executed and the
  lines written to the server's console.
\<close>

record http_result =
  status :: nat
  body :: json_body
  queries :: "jsval list"
  console :: "jsstring list"

text \<open>The message of the error that \<open>result.fields.map\<close> throws when the fields are undefined.\<close>

definition fieldsTypeError :: jsstring where
  "fieldsTypeError =
     js ''TypeError: Cannot read properties of undefined (reading '' @ quoted (js ''map'') @ js '')''"

text \<open>
  The handler. \<open>sql\<close> is the \<open>sql\<close> property of the request body, \<open>undefined\<close> when the
  body has none; \<open>startTime\<close> and \<open>endTime\<close> are the two readings of \<open>Date.now()\<close>.
  Building the response reads \<open>result.fields.map\<close> inside the \<open>try\<close> block: for a result
  without fields that throws, and the \<open>catch\<close> block answers as for a failed query.
\<close>

definition post_execute :: "database \<Rightarrow> nat \<Rightarrow> nat \<Rightarrow> jsval \<Rightarrow> http_result" where
  "post_execute db startTime endTime sql =
     (if \<not> truthy sql then
        \<lparr> status = 400, body = ErrorBody (js ''SQL query is required''), queries = [], console = [] \<rparr>
      else
        (case executeQuery db sql of
           (Inr (RowSet rs fs), qs) \<Rightarrow>
             \<lparr> status = 200,
               body = ResultBody sql rs (map field_name fs)
                        (int endTime - int startTime) (length rs),
               queries = qs, console = [] \<rparr>
         | (Inr (Header header), qs) \<Rightarrow>
             \<lparr> status = 500, body = ErrorBody (js ''Failed to execute query''),
               queries = qs, console = [js ''Error executing query: '' @ fieldsTypeError] \<rparr>
         | (Inl err, qs) \<Rightarrow>
             \<lparr> status = 500, body = ErrorBody (js ''Failed to execute query''),
               queries = qs, console = [js ''Error executing query: '' @ err] \<rparr>))"

section \<open>Column classes of the visualization panel (VisualizationPanel)\<close>

text \<open>
  \<open>Number(s)\<close> for a jsstring \<open>s\<close> is \<open>NaN\<close> unless \<open>s\<close>, trimmed, is empty or a numeric
  literal: a decimal literal with an optional sign (digits with an optional fraction and
  exponent, or \<open>Infinity\<close>), or an unsigned hexadecimal, octal or binary integer literal.
\<close>

definition isDigit :: "jschar \<Rightarrow> bool" where
  "isDigit c = (48 \<le> c \<and> c \<le> 57)"

definition isHexDigit :: "jschar \<Rightarrow> bool" where
  "isHexDigit c = (isDigit c \<or> c \<in> set (js ''abcdefABCDEF''))"

definition isOctalDigit :: "jschar \<Rightarrow> bool" where
  "isOctalDigit c = (c \<in> set (js ''01234567''))"

definition isBinaryDigit :: "jschar \<Rightarrow> bool" where
  "isBinaryDigit c = (c \<in> set (js ''01''))"

definition isDigits :: "(jschar \<Rightarrow> bool) \<Rightarrow> jsstring \<Rightarrow> bool" where
  "isDigits p s = (s \<noteq> [] \<and> list_all p s)"

definition isExponentPart :: "jsstring \<Rightarrow> bool" where
  "isExponentPart s =
     (case s of
        [] \<Rightarrow> False
      | c # r \<Rightarrow>
          (c = ch (CHR ''e'') \<or> c = ch (CHR ''E'')) \<and>
          (case r of
             [] \<Rightarrow> False
           | d # t \<Rightarrow> if d = ch (CHR ''+'') \<or> d = ch (CHR ''-'') then isDigits isDigit t
                      else isDigits isDigit r))"

definition isUnsignedDecimal :: "jsstring \<Rightarrow> bool" where
  "isUnsignedDecimal s =
     (s = (js ''Infinity'') \<or>
      (let ip = takeWhile isDigit s; r = dropWhile isDigit s in
       case r of
         [] \<Rightarrow> ip \<noteq> []
       | c # r2 \<Rightarrow>
           if c = ch (CHR ''.'') then
             (let fp = takeWhile isDigit r2; r3 = dropWhile isDigit r2 in
              (ip \<noteq> [] \<or> fp \<noteq> []) \<and> (r3 = [] \<or> isExponentPart r3))
           else ip \<noteq> [] \<and> isExponentPart r))"

definition isDecimalLiteral :: "jsstring \<Rightarrow> bool" where
  "isDecimalLiteral s =
     (case s of
        [] \<Rightarrow> False
      | c # r \<Rightarrow> if c = ch (CHR ''+'') \<or> c = ch (CHR ''-'') then isUnsignedDecimal r
                 else isUnsignedDecimal s)"

definition isNonDecimalLiteral :: "jsstring \<Rightarrow> bool" where
  "isNonDecimalLiteral s =
     (case s of
        c # x # r \<Rightarrow>
          c = ch (CHR ''0'') \<and>
          ((x \<in> set (js ''xX'') \<and> isDigits isHexDigit r) \<or>
           (x \<in> set (js ''oO'') \<and> isDigits isOctalDigit r) \<or>
           (x \<in> set (js ''bB'') \<and> isDigits isBinaryDigit r))
      | _ \<Rightarrow> False)"

definition isNumericString :: "jsstring \<Rightarrow> bool" where
  "isNumericString s =
     (trim s = [] \<or> isDecimalLiteral (trim s) \<or> isNonDecimalLiteral (trim s))"

text \<open>\<open>isNaN(Number(v))\<close>.\<close>

fun Number_isNaN :: "jsval \<Rightarrow> bool" where
  "Number_isNaN JUndefined = True"
| "Number_isNaN JNull = False"
| "Number_isNaN (JBool b) = False"
| "Number_isNaN (JNumber n) = (n = NaN)"
| "Number_isNaN (JString s) = (\<not> isNumericString s)"

text \<open>
  The two column lists of the panel, computed from the first row. For no rows the panel
  renders nothing and computes neither.
\<close>

definition isNumericColumn :: "row \<Rightarrow> jsstring \<Rightarrow> bool" where
  "isNumericColumn first col = (isNumber (getProp first col) \<or> \<not> Number_isNaN (getProp first col))"

definition isCategoricalColumn :: "row \<Rightarrow> jsstring \<Rightarrow> bool" where
  "isCategoricalColumn first col = (isString (getProp first col) \<or> isBoolean (getProp first col))"

definition numericColumns :: "row list \<Rightarrow> jsstring list" where
  "numericColumns rs =
     (case rs of [] \<Rightarrow> []
      | first # _ \<Rightarrow> filter (isNumericColumn first) (Object_keys first))"

definition categoricalColumns :: "row list \<Rightarrow> jsstring list" where
  "categoricalColumns rs =
     (case rs of [] \<Rightarrow> []
      | first # _ \<Rightarrow> filter (isCategoricalColumn first) (Object_keys first))"
section \<open>Vocabulary of the properties\<close>

text \<open>Which nodes of a rendering are SQL blocks, tables and notices.\<close>

fun isSqlBlock :: "node \<Rightarrow> bool" where
  "isSqlBlock (SqlBlock q) = True"
| "isSqlBlock n = False"

fun isDataTable :: "node \<Rightarrow> bool" where
  "isDataTable (DataTable t) = True"
| "isDataTable n = False"

text \<open>
  The data-answer path: the message reaches the last \<open>return\<close> of
  \<open>renderAssistantMessage\<close>, its type being neither of the two special types nor a
  narrative type.
\<close>

definition dataAnswerPath :: "message \<Rightarrow> bool" where
  "dataAnswerPath m =
     (msg_type m \<noteq> Some (js ''dataset_summary'') \<and> msg_type m \<noteq> Some (js ''no_dataset'') \<and>
      \<not> (truthy_str (msg_type m) \<and> the (msg_type m) \<in> set nonDataTypes))"

text \<open>Case-insensitive containment of a lower-case word.\<close>

definition contains_ci :: "jsstring \<Rightarrow> jsstring \<Rightarrow> bool" where
  "contains_ci s p = (\<exists>a v b. s = a @ v @ b \<and> toLowerCase v = p)"

text \<open>
  The history payload in the words of the specification: of the last ten turns, those
  that contribute a value, each mapped to its entry. A field is present when it is
  defined and not empty, the test the source's \<open>||\<close> and \<open>filter\<close> make.
\<close>

definition spec_assistant_text :: "message \<Rightarrow> jsstring" where
  "spec_assistant_text m =
     (case summary m of
        Some s \<Rightarrow> if s \<noteq> [] then s else
          (case explanation m of Some e \<Rightarrow> if e \<noteq> [] then e else content m | None \<Rightarrow> content m)
      | None \<Rightarrow>
          (case explanation m of Some e \<Rightarrow> if e \<noteq> [] then e else content m | None \<Rightarrow> content m))"

definition spec_entry :: "message \<Rightarrow> history_entry" where
  "spec_entry m =
     (case role m of
        User \<Rightarrow> \<lparr> user = Some (content m), assistant = None \<rparr>
      | Assistant \<Rightarrow> \<lparr> user = None, assistant = Some (spec_assistant_text m) \<rparr>)"

definition spec_contributes :: "message \<Rightarrow> bool" where
  "spec_contributes m =
     (case role m of User \<Rightarrow> content m \<noteq> [] | Assistant \<Rightarrow> spec_assistant_text m \<noteq> [])"

definition spec_history :: "message list \<Rightarrow> history_entry list" where
  "spec_history ms = map spec_entry (filter spec_contributes (rev (take 10 (rev ms))))"

text \<open>Column names that ask for a date-time and for a currency format.\<close>

definition namesDateTime :: "jsstring \<Rightarrow> bool" where
  "namesDateTime c = (contains_ci c (js ''date'') \<or> contains_ci c (js ''time''))"

definition namesMoney :: "jsstring \<Rightarrow> bool" where
  "namesMoney c =
     (contains_ci c (js ''amount'') \<or> contains_ci c (js ''price'') \<or>
      contains_ci c (js ''revenue'') \<or> contains_ci c (js ''total''))"

text \<open>
  What a formatted number has to look like. The digits of a natural number: digits only,
  denoting the number, without a leading zero. Its grouped form: a first group of one to
  three digits and then groups of exactly three, each behind a comma. A string with two
  decimals for a number of hundredths \<open>n\<close>: the grouped digits of \<open>n div 100\<close>, a point
  and the two digits of \<open>n mod 100\<close>.
\<close>

definition digitsValue :: "jsstring \<Rightarrow> nat" where
  "digitsValue ds = foldl (\<lambda>a c. 10 * a + (c - 48)) 0 ds"

definition isDecimalOf :: "nat \<Rightarrow> jsstring \<Rightarrow> bool" where
  "isDecimalOf k ds =
     (ds \<noteq> [] \<and> (\<forall>c \<in> set ds. 48 \<le> c \<and> c \<le> 57) \<and> digitsValue ds = k \<and>
      (1 < length ds \<longrightarrow> hd ds \<noteq> 48))"

definition isGroupedDecimalOf :: "nat \<Rightarrow> jsstring \<Rightarrow> bool" where
  "isGroupedDecimalOf k s =
     (\<exists>g gs. s = g @ concat (map (\<lambda>x. 44 # x) gs) \<and>
             1 \<le> length g \<and> length g \<le> 3 \<and> (\<forall>x \<in> set gs. length x = 3) \<and>
             isDecimalOf k (g @ concat gs))"

definition hasTwoDecimals :: "nat \<Rightarrow> jsstring \<Rightarrow> bool" where
  "hasTwoDecimals n s =
     (\<exists>g c1 c2. s = g @ [46, c1, c2] \<and> isGroupedDecimalOf (n div 100) g \<and>
                48 \<le> c1 \<and> c1 \<le> 57 \<and> 48 \<le> c2 \<and> c2 \<le> 57 \<and>
                10 * (c1 - 48) + (c2 - 48) = n mod 100)"

text \<open>
  The magnitude of the finite number with digits \<open>d\<close> and power of ten \<open>e\<close>, and what it
  is for \<open>n\<close> to be that magnitude in hundredths, rounded to the nearest integer with a
  tie going up.
\<close>

definition magnitude :: "nat \<Rightarrow> int \<Rightarrow> rat" where
  "magnitude d e = (if 0 \<le> e then of_nat d * 10 ^ nat e else of_nat d / 10 ^ nat (- e))"

definition roundsToHundredths :: "nat \<Rightarrow> int \<Rightarrow> nat \<Rightarrow> bool" where
  "roundsToHundredths d e n =
     (of_nat n \<le> 100 * magnitude d e + 1 / 2 \<and> 100 * magnitude d e + 1 / 2 < of_nat n + 1)"

subsection \<open>Sample inputs\<close>

definition sample_host :: host where
  "sample_host = \<lparr> dateToLocaleString = (\<lambda>v. (js ''1/1/2024, 12:00:00 AM'')),
                    numberToString = (\<lambda>n. (js ''0'')) \<rparr>"

definition sample_rows :: "row list" where
  "sample_rows = [[(js ''region'', JString (js ''north'')),
                   (js ''total_revenue'', JNumber (Finite False 12345 (- 1)))]]"

definition sample_message :: "jsstring option \<Rightarrow> jsstring \<Rightarrow> row list \<Rightarrow> message" where
  "sample_message ty q rs =
     \<lparr> msg_id = 2, content = [], role = Assistant, timestamp = 1,
       explanation = Some (js ''Hello''), summary = None, query = Some q, data = Some rs,
       msg_type = ty \<rparr>"

definition sample_state :: "jsstring \<Rightarrow> chat_state" where
  "sample_state text =
     \<lparr> messages = [], input = text, isLoading = False, requests = [], executed = [] \<rparr>"

definition sample_response :: chat_response where
  "sample_response =
     \<lparr> response_query = (js ''select 1''), response_explanation = (js ''One''),
       response_summary = None, response_data = None,
       response_sql = Some (js ''select 1''), response_type = None \<rparr>"

definition sample_turn :: "role \<Rightarrow> jsstring \<Rightarrow> jsstring option \<Rightarrow> jsstring option \<Rightarrow> message" where
  "sample_turn r c e sm =
     \<lparr> msg_id = 1, content = c, role = r, timestamp = 1,
       explanation = e, summary = sm, query = None, data = None, msg_type = None \<rparr>"

definition sample_log :: "message list" where
  "sample_log =
     [sample_turn User (js ''dropped: eleventh from the end'') None None,
      sample_turn User (js ''q1'') None None,
      sample_turn Assistant [] (Some (js ''long answer'')) (Some (js ''short answer'')),
      sample_turn User (js ''q2'') None None,
      sample_turn Assistant [] (Some (js ''only explanation'')) (Some []),
      sample_turn User (js ''q3'') None None,
      sample_turn Assistant (js ''Sorry, I encountered an error. Please try again.'') None None,
      sample_turn User (js ''q4'') None None,
      sample_turn Assistant [] (Some []) None,
      sample_turn User (js ''q5'') None None,
      sample_turn Assistant [] None (Some (js ''s5''))]"

definition sample_db :: database where
  "sample_db =
     \<lparr> getConnection = None,
       execute = (\<lambda>q. if q = JString (js ''select 1 as n'')
                      then Inr (RowSet [[(js ''n'', JNumber (Finite False 1 0))]]
                                       [\<lparr> field_name = js ''n'' \<rparr>])
                      else if q = JString (js ''insert into t values (1)'')
                      then Inr (Header \<lparr> affectedRows = 1, insertId = 0 \<rparr>)
                      else Inl (js ''ER_PARSE_ERROR: You have an error in your SQL syntax'')) \<rparr>"

definition sample_upload :: upload_state where
  "sample_upload = \<lparr> current_file = None, isUploading = False, error = None,
                     dragActive = False, uploadSuccess = True, uploads = [] \<rparr>"

definition sample_first_row :: row where
  "sample_first_row =
     [(js ''active'', JBool True), (js ''region'', JString (js ''north'')), (js ''year'', JString (js ''2024'')),
      (js ''code'', JString ([0xA0] @ js ''12'')),
      (js ''discount'', JNull), (js ''units'', JNumber (Finite False 3 0))]"

section \<open>Strings\<close>

text \<open>Facts for evaluating string functions on literals.\<close>

lemmas string_eval =
  js_def ch_def quoted_def toLowerCase_def lowerChar_def trim_def trimStart_def trimEnd_def
  isWhiteSpace_def startsWith_def endsWith_def

lemma js_eq_iff [simp]: "js a = js b \<longleftrightarrow> a = b"
  by (simp add: js_def ch_def inj_map_eq_map inj_on_def)

lemma js_Nil_iff [simp]: "js a = [] \<longleftrightarrow> a = []" "[] = js a \<longleftrightarrow> a = []"
  by (auto simp: js_def)


lemma str_includes_sublist: "str_includes s p = sublist p s"
  by (induction s) (simp_all add: sublist_Cons_right)

lemma str_includes_iff: "str_includes s p \<longleftrightarrow> (\<exists>a b. s = a @ p @ b)"
  by (simp add: str_includes_sublist sublist_def)

lemma includes_lower_iff: "str_includes (toLowerCase s) p \<longleftrightarrow> contains_ci s p"
proof
  assume "str_includes (toLowerCase s) p"
  then obtain a b where "map lowerChar s = a @ (p @ b)"
    by (auto simp: str_includes_iff toLowerCase_def)
  then obtain a' r where s: "s = a' @ r" and "p @ b = map lowerChar r"
    unfolding map_eq_append_conv by blast
  then have "map lowerChar r = p @ b" by simp
  then obtain v b' where "r = v @ b'" and "p = map lowerChar v"
    unfolding map_eq_append_conv by blast
  with s show "contains_ci s p"
    by (auto simp: toLowerCase_def contains_ci_def)
next
  assume "contains_ci s p"
  then obtain a v b where "s = a @ v @ b" and "toLowerCase v = p"
    unfolding contains_ci_def by blast
  then have "toLowerCase s = toLowerCase a @ p @ toLowerCase b"
    by (simp add: toLowerCase_def)
  then show "str_includes (toLowerCase s) p"
    unfolding str_includes_iff by blast
qed

section \<open>Rendering of assistant messages\<close>

lemma textBubble_nodes: "n \<in> set (textBubble t) \<Longrightarrow> \<exists>bs. n = TextBubble bs"
  by (auto simp: textBubble_def split: if_splits)

lemma renderDataTable_nodes:
  "n \<in> set (renderDataTable h rs) \<Longrightarrow> n = NoDataNotice \<or> isDataTable n \<or> n = VisualizeButton rs"
  by (auto simp: renderDataTable_def Let_def split: list.splits)

lemma render_dataAnswer:
  "dataAnswerPath m \<Longrightarrow>
   renderAssistantMessage h m =
     textBubble (or_else (summary m) (explanation m)) @
     (if showsSql (query m) then [SqlBlock (the (query m))] else []) @
     (case data m of None \<Rightarrow> []
      | Some rows \<Rightarrow> if length rows > 0 then renderDataTable h rows else [])"
  by (auto simp: dataAnswerPath_def renderAssistantMessage_def Let_def)

lemma showsSql_iff:
  "showsSql q \<longleftrightarrow>
     (\<exists>s. q = Some s \<and> s \<noteq> [] \<and> contains_ci s (js ''select'') \<and>
          \<not> contains_ci s (quoted (js ''greeting'')) \<and> \<not> contains_ci s (quoted (js ''ai_info'')) \<and>
          \<not> contains_ci s (quoted (js ''help'')) \<and> \<not> contains_ci s (quoted (js ''out_of_scope'')))"
  by (cases q) (simp_all add: showsSql_def quoted_def includes_lower_iff)

lemma sql_in_render:
  assumes "dataAnswerPath m"
  shows "(\<exists>n \<in> set (renderAssistantMessage h m). isSqlBlock n) \<longleftrightarrow> showsSql (query m)"
proof -
  have a: "\<not> (\<exists>n \<in> set (textBubble t). isSqlBlock n)" for t
    by (auto dest: textBubble_nodes)
  have b: "\<not> (\<exists>n \<in> set (renderDataTable h rs). isSqlBlock n)" for rs
    by (auto dest!: renderDataTable_nodes elim: isDataTable.elims)
  show ?thesis
    unfolding render_dataAnswer [OF assms] using a b
    by (auto split: option.splits)
qed

lemma process_Hello: "processMessageContent (Some (js ''Hello'')) = Some [Paragraph (js ''Hello'')]"
  by (simp add: processMessageContent_def processLine_def renderParagraph_def renderList_def
        string_eval)

text \<open>
  C1. A message whose type is one of the eight narrative types renders to the processed
  explanation alone (to nothing when the explanation is missing or empty): no node of the
  rendering is a SQL block or a data table, whatever \<open>query\<close> and \<open>data\<close> hold.
\<close>

theorem narrative_renders_explanation_only:
  assumes "msg_type m = Some t"
    and "t \<in> {(js ''knowledge_base''), (js ''greeting''), (js ''help''), (js ''ai_info''), (js ''operation''),
               (js ''general_knowledge''), (js ''out_of_scope''), (js ''error'')}"
  shows "renderAssistantMessage h m =
           (case explanation m of
              None \<Rightarrow> []
            | Some e \<Rightarrow> if e = [] then [] else [TextBubble (the (processMessageContent (Some e)))])
         \<and> (\<forall>n \<in> set (renderAssistantMessage h m). \<not> isSqlBlock n \<and> \<not> isDataTable n)"
proof -
  from assms have t: "t \<noteq> (js ''dataset_summary'')" "t \<noteq> (js ''no_dataset'')" "t \<noteq> []"
    by auto
  from assms(2) have mem: "t \<in> set nonDataTypes"
    by (simp add: nonDataTypes_def)
  have r: "renderAssistantMessage h m = textBubble (explanation m)"
    using assms(1) t mem by (simp add: renderAssistantMessage_def Let_def)
  have "textBubble (explanation m) =
          (case explanation m of
              None \<Rightarrow> []
            | Some e \<Rightarrow> if e = [] then [] else [TextBubble (the (processMessageContent (Some e)))])"
    by (auto simp: textBubble_def processMessageContent_def split: option.splits prod.splits)
  moreover have "\<forall>n \<in> set (textBubble (explanation m)). \<not> isSqlBlock n \<and> \<not> isDataTable n"
    by (auto dest: textBubble_nodes)
  ultimately show ?thesis using r by simp
qed

theorem narrative_renders_explanation_only_witness:
  "msg_type (sample_message (Some (js ''greeting'')) (js ''SELECT 1'') sample_rows) = Some (js ''greeting'') \<and>
   query (sample_message (Some (js ''greeting'')) (js ''SELECT 1'') sample_rows) = Some (js ''SELECT 1'') \<and>
   data (sample_message (Some (js ''greeting'')) (js ''SELECT 1'') sample_rows) = Some sample_rows \<and>
   renderAssistantMessage sample_host (sample_message (Some (js ''greeting'')) (js ''SELECT 1'') sample_rows)
     = [TextBubble [Paragraph (js ''Hello'')]]"
  using narrative_renders_explanation_only
          [of "sample_message (Some (js ''greeting'')) (js ''SELECT 1'') sample_rows" "(js ''greeting'')" sample_host]
  by (simp add: sample_message_def process_Hello)

text \<open>
  C2. On the data-answer path the rendering holds a SQL block exactly when the query is
  non-empty, contains \<open>select\<close> in any letter case and contains none of the quoted words
  \<open>'greeting'\<close>, \<open>'ai_info'\<close>, \<open>'help'\<close>, \<open>'out_of_scope'\<close> in any letter case. In particular a
  query containing \<open>'greeting'\<close> gets no SQL block, with or without \<open>select\<close>.
\<close>

theorem sql_block_shown_iff:
  assumes "dataAnswerPath m"
  shows "((\<exists>n \<in> set (renderAssistantMessage h m). isSqlBlock n) \<longleftrightarrow>
          (\<exists>s. query m = Some s \<and> s \<noteq> [] \<and> contains_ci s (js ''select'') \<and>
             \<not> contains_ci s (quoted (js ''greeting'')) \<and> \<not> contains_ci s (quoted (js ''ai_info'')) \<and>
             \<not> contains_ci s (quoted (js ''help'')) \<and> \<not> contains_ci s (quoted (js ''out_of_scope''))))
         \<and> (\<forall>s. query m = Some s \<and> contains_ci s (quoted (js ''greeting'')) \<longrightarrow>
               (\<forall>n \<in> set (renderAssistantMessage h m). \<not> isSqlBlock n))"
proof -
  have 1: "(\<exists>n \<in> set (renderAssistantMessage h m). isSqlBlock n) \<longleftrightarrow> showsSql (query m)"
    by (rule sql_in_render [OF assms])
  have 2: "(\<forall>n \<in> set (renderAssistantMessage h m). \<not> isSqlBlock n) \<longleftrightarrow> \<not> showsSql (query m)"
    using 1 by blast
  show ?thesis unfolding 1 2 showsSql_iff by auto
qed

theorem sql_block_shown_iff_witness:
  "dataAnswerPath (sample_message None ((js ''SELECT '') @ quoted (js ''Greeting'')) []) \<and>
   contains_ci ((js ''SELECT '') @ quoted (js ''Greeting'')) (js ''select'') \<and>
   contains_ci ((js ''SELECT '') @ quoted (js ''Greeting'')) (quoted (js ''greeting'')) \<and>
   \<not> (\<exists>n \<in> set (renderAssistantMessage sample_host
                    (sample_message None ((js ''SELECT '') @ quoted (js ''Greeting'')) [])). isSqlBlock n)"
proof -
  let ?q = "(js ''SELECT '') @ quoted (js ''Greeting'')"
  let ?m = "sample_message None ?q []"
  have p: "dataAnswerPath ?m"
    by (simp add: dataAnswerPath_def sample_message_def)
  have g: "contains_ci ?q (quoted (js ''greeting''))"
    unfolding includes_lower_iff [symmetric] by (simp add: string_eval)
  have s: "contains_ci ?q (js ''select'')"
    unfolding includes_lower_iff [symmetric] by (simp add: string_eval)
  have q: "query ?m = Some ?q"
    by (simp add: sample_message_def)
  from sql_block_shown_iff [OF p, of sample_host] q g
  have "\<not> (\<exists>n \<in> set (renderAssistantMessage sample_host ?m). isSqlBlock n)"
    by blast
  with p g s show ?thesis by blast
qed

text \<open>A plain query is shown.\<close>

lemma plain_select_is_shown:
  "\<exists>n \<in> set (renderAssistantMessage sample_host
                 (sample_message None (js ''select * from sales'') sample_rows)). isSqlBlock n"
proof -
  let ?m = "sample_message None (js ''select * from sales'') sample_rows"
  have p: "dataAnswerPath ?m"
    by (simp add: dataAnswerPath_def sample_message_def)
  have "showsSql (Some (js ''select * from sales''))"
    by (simp add: showsSql_def string_eval)
  then have "showsSql (query ?m)" by (simp add: sample_message_def)
  then show ?thesis using sql_in_render [OF p] by blast
qed

section \<open>Submitting\<close>

text \<open>
  C3. When the input trims to a non-empty string, \<open>handleSubmit\<close> appends exactly one
  user turn before the request is sent (and sends exactly one request), and when the
  request settles, with a reply or with a failure, exactly one assistant turn is appended
  to the log of that moment; run back to back the log grows by the user turn and one
  assistant turn. When the input is empty or only white space the state is unchanged: no
  turn is appended and no request is sent. The callback is the one \<open>App\<close> passes.
\<close>

theorem submit_appends_one_turn_each:
  "(trim (input s) \<noteq> [] \<longrightarrow>
      messages (handleSubmit_send t s) = messages s @ [userMessage t (input s)] \<and>
      role (userMessage t (input s)) = User \<and>
      content (userMessage t (input s)) = trim (input s) \<and>
      requests (handleSubmit_send t s) =
        requests s @ [\<lparr> request_message = trim (input s), history = build_history (messages s) \<rparr>] \<and>
      (\<forall>outcome t' s'. \<exists>a.
         messages (handleSubmit_settle App_onQueryExecute t' outcome s') = messages s' @ [a] \<and>
         role a = Assistant \<and>
         requests (handleSubmit_settle App_onQueryExecute t' outcome s') = requests s') \<and>
      (\<forall>outcome t'. \<exists>a.
         messages (handleSubmit_settle App_onQueryExecute t' outcome (handleSubmit_send t s))
           = messages s @ [userMessage t (input s), a] \<and> role a = Assistant)) \<and>
   (trim (input s) = [] \<longrightarrow> handleSubmit_send t s = s)"
proof -
  have settle: "\<exists>a. messages (handleSubmit_settle App_onQueryExecute t' outcome s') = messages s' @ [a]
        \<and> role a = Assistant
        \<and> requests (handleSubmit_settle App_onQueryExecute t' outcome s') = requests s'"
    for t' outcome s'
    by (cases outcome)
       (simp_all add: handleSubmit_settle_def App_onQueryExecute_def Let_def
                      errorMessage_def assistantMessage_def)
  have send: "trim (input s) \<noteq> [] \<Longrightarrow>
      messages (handleSubmit_send t s) = messages s @ [userMessage t (input s)]"
    by (simp add: handleSubmit_send_def)
  have both: "\<exists>a. messages (handleSubmit_settle App_onQueryExecute t' outcome (handleSubmit_send t s))
           = messages s @ [userMessage t (input s), a] \<and> role a = Assistant"
    if "trim (input s) \<noteq> []" for t' outcome
    using settle [of t' outcome "handleSubmit_send t s"] send [OF that] by auto
  show ?thesis
    using settle both by (simp add: handleSubmit_send_def userMessage_def)
qed

theorem submit_appends_one_turn_each_witness:
  "trim (input (sample_state (js ''  total sales?  ''))) = (js ''total sales?'') \<and>
   messages (handleSubmit_send 7 (sample_state (js ''  total sales?  '')))
     = [userMessage 7 (js ''  total sales?  '')] \<and>
   map role (messages (handleSubmit_settle App_onQueryExecute 9 (Resolved sample_response)
                (handleSubmit_send 7 (sample_state (js ''  total sales?  '')))))
     = [User, Assistant] \<and>
   map role (messages (handleSubmit_settle App_onQueryExecute 9 Rejected
                (handleSubmit_send 7 (sample_state (js ''  total sales?  '')))))
     = [User, Assistant] \<and>
   trim (input (sample_state [0x20, 0xA0, 0x3000])) = [] \<and>
   handleSubmit_send 7 (sample_state [0x20, 0xA0, 0x3000]) = sample_state [0x20, 0xA0, 0x3000]"
proof -
  let ?s = "sample_state (js ''  total sales?  '')"
  let ?e = "sample_state [0x20, 0xA0, 0x3000]"
  have a: "trim (input ?s) = (js ''total sales?'')"
    by (simp add: sample_state_def string_eval)
  have b: "trim (input ?e) = []"
    by (simp add: sample_state_def string_eval)
  have m: "messages ?s = []" "input ?s = (js ''  total sales?  '')"
    by (simp_all add: sample_state_def)
  from a have a': "trim (input ?s) \<noteq> []" by simp
  from submit_appends_one_turn_each [of ?s 7] a'
  have 1: "messages (handleSubmit_send 7 ?s) = messages ?s @ [userMessage 7 (input ?s)]"
    and 2: "\<And>outcome t'. \<exists>a.
         messages (handleSubmit_settle App_onQueryExecute t' outcome (handleSubmit_send 7 ?s))
           = messages ?s @ [userMessage 7 (input ?s), a] \<and> role a = Assistant"
    by blast+
  have u: "role (userMessage 7 x) = User" for x
    by (simp add: userMessage_def)
  have 3: "map role (messages (handleSubmit_settle App_onQueryExecute 9 outcome
                (handleSubmit_send 7 ?s))) = [User, Assistant]" for outcome
    using 2 [of 9 outcome] u by (auto simp: m)
  from submit_appends_one_turn_each [of ?e 7] b have 4: "handleSubmit_send 7 ?e = ?e" by blast
  show ?thesis using a b 1 3 4 by (simp add: m)
qed

text \<open>
  The component itself leaves the callback open: one that rejects after the reply arrived
  makes the \<open>catch\<close> block add the failure turn behind the assistant turn.
\<close>

lemma settle_rejecting_callback_appends_two:
  "truthy_str (response_sql r) \<Longrightarrow>
   messages (handleSubmit_settle (\<lambda>sql. Rejected) t (Resolved r) s)
     = messages s @ [assistantMessage t r, errorMessage t]"
  by (simp add: handleSubmit_settle_def Let_def)


lemma slice_last_rev: "slice_last n xs = rev (take n (rev xs))"
  by (simp add: slice_last_def rev_take)

lemma history_of_spec:
  "(truthy_str (user (history_of m)) \<or> truthy_str (assistant (history_of m))) = spec_contributes m"
  "spec_contributes m \<Longrightarrow> history_of m = spec_entry m"
  by (cases "role m"; cases "summary m"; cases "explanation m";
      simp add: history_of_def spec_contributes_def spec_entry_def spec_assistant_text_def or_else_def)+

text \<open>
  C7. The history payload is built from the last ten turns of the log: a user turn gives
  \<open>{user: content}\<close>, an assistant turn gives \<open>{assistant: x}\<close> with \<open>x\<close> the summary if
  present, else the explanation if present, else the raw content; a turn that contributes
  no value is dropped. The order of the turns is kept and at most ten entries are sent.
\<close>

theorem history_payload_is_spec_history:
  "build_history ms = spec_history ms \<and> length (build_history ms) \<le> 10"
proof -
  have "build_history ms = map history_of (filter spec_contributes (slice_last 10 ms))"
    by (simp add: build_history_def filter_map o_def history_of_spec(1))
  also have "\<dots> = map spec_entry (filter spec_contributes (slice_last 10 ms))"
    by (rule map_cong) (simp_all add: history_of_spec(2))
  finally have eq: "build_history ms = spec_history ms"
    by (simp add: spec_history_def slice_last_rev)
  have "length (filter spec_contributes (rev (take 10 (rev ms)))) \<le> length (rev (take 10 (rev ms)))"
    by (rule length_filter_le)
  then have "length (spec_history ms) \<le> 10"
    by (simp add: spec_history_def)
  with eq show ?thesis by simp
qed

theorem history_payload_is_spec_history_witness:
  "build_history sample_log =
     [\<lparr> user = Some (js ''q1''), assistant = None \<rparr>,
      \<lparr> user = None, assistant = Some (js ''short answer'') \<rparr>,
      \<lparr> user = Some (js ''q2''), assistant = None \<rparr>,
      \<lparr> user = None, assistant = Some (js ''only explanation'') \<rparr>,
      \<lparr> user = Some (js ''q3''), assistant = None \<rparr>,
      \<lparr> user = None, assistant = Some (js ''Sorry, I encountered an error. Please try again.'') \<rparr>,
      \<lparr> user = Some (js ''q4''), assistant = None \<rparr>,
      \<lparr> user = Some (js ''q5''), assistant = None \<rparr>,
      \<lparr> user = None, assistant = Some (js ''s5'') \<rparr>]"
proof -
  have "spec_history sample_log =
     [\<lparr> user = Some (js ''q1''), assistant = None \<rparr>,
      \<lparr> user = None, assistant = Some (js ''short answer'') \<rparr>,
      \<lparr> user = Some (js ''q2''), assistant = None \<rparr>,
      \<lparr> user = None, assistant = Some (js ''only explanation'') \<rparr>,
      \<lparr> user = Some (js ''q3''), assistant = None \<rparr>,
      \<lparr> user = None, assistant = Some (js ''Sorry, I encountered an error. Please try again.'') \<rparr>,
      \<lparr> user = Some (js ''q4''), assistant = None \<rparr>,
      \<lparr> user = Some (js ''q5''), assistant = None \<rparr>,
      \<lparr> user = None, assistant = Some (js ''s5'') \<rparr>]"
    by (simp add: spec_history_def sample_log_def sample_turn_def spec_contributes_def
          spec_entry_def spec_assistant_text_def)
  with history_payload_is_spec_history [of sample_log] show ?thesis by simp
qed

text \<open>
  C10. \<open>renderAssistantMessage\<close> does not depend on the field \<open>content\<close>. The failure
  turn that \<open>handleSubmit\<close> appends when sending fails carries its message in \<open>content\<close>
  only, so it renders to nothing: the message is never displayed.
\<close>

theorem failure_turn_renders_empty:
  "renderAssistantMessage h (m \<lparr> content := c \<rparr>) = renderAssistantMessage h m \<and>
   renderAssistantMessage h (errorMessage t) = [] \<and>
   content (errorMessage t) = (js ''Sorry, I encountered an error. Please try again.'') \<and>
   messages (handleSubmit_settle cb t Rejected s) = messages s @ [errorMessage t]"
  by (simp add: renderAssistantMessage_def errorMessage_def Let_def or_else_def textBubble_def
        showsSql_def handleSubmit_settle_def)

theorem failure_turn_renders_empty_witness:
  "renderAssistantMessage sample_host
     (last (messages (handleSubmit_settle App_onQueryExecute 9 Rejected
                        (handleSubmit_send 7 (sample_state (js ''hi'')))))) = []"
  using failure_turn_renders_empty [where h = sample_host and t = 9 and cb = App_onQueryExecute
               and s = "handleSubmit_send 7 (sample_state (js ''hi''))"]
  by simp


section \<open>The endpoint\<close>

text \<open>
  What the handler answers, case by case: 400 without touching the database when \<open>sql\<close>
  is missing or falsy; the fixed 500 body when \<open>executeQuery\<close> throws, whatever the
  error; 200 with the five fields when rows and fields come back; and the same fixed 500
  body when the statement ran but gave no fields.
\<close>

lemma post_execute_cases:
  "(\<not> truthy sql \<longrightarrow>
      status (post_execute db t0 t1 sql) = 400 \<and>
      body (post_execute db t0 t1 sql) = ErrorBody (js ''SQL query is required'') \<and>
      queries (post_execute db t0 t1 sql) = []) \<and>
   (truthy sql \<and> fst (executeQuery db sql) = Inl err \<longrightarrow>
      status (post_execute db t0 t1 sql) = 500 \<and>
      body (post_execute db t0 t1 sql) = ErrorBody (js ''Failed to execute query'')) \<and>
   (truthy sql \<and> fst (executeQuery db sql) = Inr (RowSet rs fs) \<longrightarrow>
      status (post_execute db t0 t1 sql) = 200 \<and>
      body (post_execute db t0 t1 sql) =
        ResultBody sql rs (map field_name fs) (int t1 - int t0) (length rs)) \<and>
   (truthy sql \<and> fst (executeQuery db sql) = Inr (Header hdr) \<longrightarrow>
      status (post_execute db t0 t1 sql) = 500 \<and>
      body (post_execute db t0 t1 sql) = ErrorBody (js ''Failed to execute query'') \<and>
      queries (post_execute db t0 t1 sql) = snd (executeQuery db sql))"
  by (auto simp: post_execute_def split: prod.splits sum.splits query_result.splits)

text \<open>
  C8. The claim holds for a missing \<open>sql\<close>, for a query that throws and for a statement
  that returns rows. It fails for a statement that succeeds without returning rows: the
  INSERT below is executed, and the answer is status 500 with \<open>Failed to execute query\<close>
  in place of the body with \<open>sql\<close>, \<open>data\<close>, \<open>columns\<close>, \<open>executionTime\<close> and \<open>rowCount\<close>.
\<close>

theorem post_execute_insert_answers_500:
  "fst (executeQuery sample_db (JString (js ''insert into t values (1)'')))
     = Inr (Header \<lparr> affectedRows = 1, insertId = 0 \<rparr>) \<and>
   post_execute sample_db 100 103 (JString (js ''insert into t values (1)'')) =
     \<lparr> status = 500, body = ErrorBody (js ''Failed to execute query''),
       queries = [JString (js ''insert into t values (1)'')],
       console = [js ''Error executing query: '' @ fieldsTypeError] \<rparr> \<and>
   post_execute sample_db 100 103 (JString (js ''select 1 as n'')) =
     \<lparr> status = 200,
       body = ResultBody (JString (js ''select 1 as n'')) [[(js ''n'', JNumber (Finite False 1 0))]]
                [js ''n''] 3 1,
       queries = [JString (js ''select 1 as n'')], console = [] \<rparr>"
  by (simp add: post_execute_def executeQuery_def sample_db_def)

section \<open>Choosing a file\<close>

lemma endsWith_iff: "endsWith s p \<longleftrightarrow> (\<exists>a. s = a @ p)"
proof
  assume "endsWith s p"
  then have "s = take (length s - length p) s @ p"
    by (simp add: endsWith_def) (metis append_take_drop_id)
  then show "\<exists>a. s = a @ p" ..
next
  assume "\<exists>a. s = a @ p"
  then show "endsWith s p" by (auto simp: endsWith_def)
qed

text \<open>
  C9. A file whose name does not end in \<open>.csv\<close> is rejected by \<open>handleFile\<close> with the
  message \<open>Please upload a CSV file\<close>: only the error changes, the selected file stays
  what it was, no upload is started, and with no file selected before a following submit
  uploads nothing either. A file whose name ends in \<open>.csv\<close> becomes the selected file.
\<close>

theorem handleFile_accepts_only_csv:
  "((\<nexists>a. file_name f = a @ (js ''.csv'')) \<longrightarrow>
      handleFile f s = s \<lparr> error := Some (js ''Please upload a CSV file'') \<rparr> \<and>
      current_file (handleFile f s) = current_file s \<and>
      uploads (handleFile f s) = uploads s \<and>
      (current_file s = None \<longrightarrow> uploads (upload_handleSubmit outcome (handleFile f s)) = uploads s)) \<and>
   ((\<exists>a. file_name f = a @ (js ''.csv'')) \<longrightarrow>
      current_file (handleFile f s) = Some f \<and>
      error (handleFile f s) = None \<and>
      uploads (handleFile f s) = uploads s)"
  by (simp add: handleFile_def upload_handleSubmit_def endsWith_iff)

theorem handleFile_accepts_only_csv_witness:
  "\<not> (\<exists>a. (js ''data.CSV'') = a @ (js ''.csv'')) \<and>
   handleFile \<lparr> file_name = (js ''data.CSV''), file_content = (js ''a,b'') \<rparr> sample_upload
     = sample_upload \<lparr> error := Some (js ''Please upload a CSV file'') \<rparr> \<and>
   current_file (handleFile \<lparr> file_name = (js ''data.CSV''), file_content = (js ''a,b'') \<rparr> sample_upload) = None \<and>
   current_file (handleFile \<lparr> file_name = (js ''data.csv''), file_content = (js ''a,b'') \<rparr> sample_upload)
     = Some \<lparr> file_name = (js ''data.csv''), file_content = (js ''a,b'') \<rparr>"
proof -
  have n: "\<not> (\<exists>a. (js ''data.CSV'') = a @ (js ''.csv''))"
    unfolding endsWith_iff [symmetric] by (simp add: string_eval)
  have y: "\<exists>a. (js ''data.csv'') = a @ (js ''.csv'')"
    unfolding endsWith_iff [symmetric] by (simp add: string_eval)
  have c: "current_file sample_upload = None" by (simp add: sample_upload_def)
  from handleFile_accepts_only_csv [of "\<lparr> file_name = (js ''data.CSV''), file_content = (js ''a,b'') \<rparr>" sample_upload] n c
  have 1: "handleFile \<lparr> file_name = (js ''data.CSV''), file_content = (js ''a,b'') \<rparr> sample_upload
     = sample_upload \<lparr> error := Some (js ''Please upload a CSV file'') \<rparr>"
    "current_file (handleFile \<lparr> file_name = (js ''data.CSV''), file_content = (js ''a,b'') \<rparr> sample_upload) = None"
    by simp_all
  from handleFile_accepts_only_csv [of "\<lparr> file_name = (js ''data.csv''), file_content = (js ''a,b'') \<rparr>" sample_upload] y
  have 2: "current_file (handleFile \<lparr> file_name = (js ''data.csv''), file_content = (js ''a,b'') \<rparr> sample_upload)
     = Some \<lparr> file_name = (js ''data.csv''), file_content = (js ''a,b'') \<rparr>"
    by simp
  show ?thesis using n 1 2 by simp
qed


section \<open>Empty result sets\<close>

text \<open>
  C6, as stated, fails: a data answer whose \<open>data\<close> is the empty array renders its text
  and SQL block and nothing else, neither a table nor a notice.
\<close>

theorem empty_data_renders_no_notice:
  "dataAnswerPath (sample_message None (js ''select 1'') []) \<and>
   data (sample_message None (js ''select 1'') []) = Some [] \<and>
   renderAssistantMessage sample_host (sample_message None (js ''select 1'') [])
     = [TextBubble [Paragraph (js ''Hello'')], SqlBlock (js ''select 1'')] \<and>
   NoDataNotice \<notin> set (renderAssistantMessage sample_host (sample_message None (js ''select 1'') []))"
proof -
  have s: "showsSql (Some (js ''select 1''))"
    by (simp add: showsSql_def string_eval)
  have "renderAssistantMessage sample_host (sample_message None (js ''select 1'') [])
     = [TextBubble [Paragraph (js ''Hello'')], SqlBlock (js ''select 1'')]"
    by (simp add: renderAssistantMessage_def sample_message_def Let_def or_else_def textBubble_def
          process_Hello s)
  then show ?thesis
    by (simp add: dataAnswerPath_def sample_message_def)
qed

text \<open>
  C6, amended. \<open>renderDataTable\<close> returns the notice for no rows, but on the data-answer
  path \<open>renderAssistantMessage\<close> calls it only for data of positive length. So a message
  whose data is present with length 0 renders neither a notice nor a table, and a message
  with rows renders a table and no notice.
\<close>

theorem no_data_notice_only_in_renderDataTable:
  "renderDataTable h [] = [NoDataNotice] \<and>
   (dataAnswerPath m \<and> data m = Some [] \<longrightarrow>
      NoDataNotice \<notin> set (renderAssistantMessage h m) \<and>
      \<not> (\<exists>n \<in> set (renderAssistantMessage h m). isDataTable n)) \<and>
   (dataAnswerPath m \<and> data m = Some rs \<and> rs \<noteq> [] \<longrightarrow>
      NoDataNotice \<notin> set (renderAssistantMessage h m) \<and>
      (\<exists>n \<in> set (renderAssistantMessage h m). isDataTable n))"
proof -
  have a: "NoDataNotice \<notin> set (textBubble t)" "\<not> (\<exists>n \<in> set (textBubble t). isDataTable n)" for t
    by (auto dest: textBubble_nodes)
  have b: "rs \<noteq> [] \<Longrightarrow> NoDataNotice \<notin> set (renderDataTable h rs) \<and>
             (\<exists>n \<in> set (renderDataTable h rs). isDataTable n)"
    by (cases rs) (simp_all add: renderDataTable_def Let_def)
  have 1: "renderDataTable h [] = [NoDataNotice]"
    by (simp add: renderDataTable_def)
  have 2: "NoDataNotice \<notin> set (renderAssistantMessage h m) \<and>
      \<not> (\<exists>n \<in> set (renderAssistantMessage h m). isDataTable n)"
    if "dataAnswerPath m" "data m = Some []"
    using that a by (auto simp: render_dataAnswer)
  have 3: "NoDataNotice \<notin> set (renderAssistantMessage h m) \<and>
      (\<exists>n \<in> set (renderAssistantMessage h m). isDataTable n)"
    if "dataAnswerPath m" "data m = Some rs" "rs \<noteq> []"
    using that a b by (auto simp: render_dataAnswer)
  show ?thesis using 1 2 3 by blast
qed

theorem no_data_notice_only_in_renderDataTable_witness:
  "dataAnswerPath (sample_message None (js ''select 1'') []) \<and>
   data (sample_message None (js ''select 1'') []) = Some [] \<and>
   renderDataTable sample_host [] = [NoDataNotice] \<and>
   NoDataNotice \<notin> set (renderAssistantMessage sample_host (sample_message None (js ''select 1'') [])) \<and>
   \<not> (\<exists>n \<in> set (renderAssistantMessage sample_host (sample_message None (js ''select 1'') [])).
         isDataTable n)"
proof -
  have p: "dataAnswerPath (sample_message None (js ''select 1'') [])"
    by (simp add: dataAnswerPath_def sample_message_def)
  have d: "data (sample_message None (js ''select 1'') []) = Some []"
    by (simp add: sample_message_def)
  from no_data_notice_only_in_renderDataTable [of sample_host "sample_message None (js ''select 1'') []"] p d
  show ?thesis by blast
qed


section \<open>Column classes\<close>

text \<open>
  C5, as stated, fails: the two classes are not disjoint. A column whose first-row value
  is a boolean, or a string that reads as a number, is in both.
\<close>

theorem column_classes_overlap:
  "(js ''active'') \<in> set (numericColumns [[(js ''active'', JBool True), (js ''year'', JString (js ''2024''))]]) \<and>
   (js ''active'') \<in> set (categoricalColumns [[(js ''active'', JBool True), (js ''year'', JString (js ''2024''))]]) \<and>
   (js ''year'') \<in> set (numericColumns [[(js ''active'', JBool True), (js ''year'', JString (js ''2024''))]]) \<and>
   (js ''year'') \<in> set (categoricalColumns [[(js ''active'', JBool True), (js ''year'', JString (js ''2024''))]])"
  by (simp add: numericColumns_def categoricalColumns_def isNumericColumn_def
        isCategoricalColumn_def Object_keys_def getProp_def isNumericString_def
        isDecimalLiteral_def isNonDecimalLiteral_def isUnsignedDecimal_def isExponentPart_def
        isDigits_def isDigit_def sample_first_row_def string_eval)

text \<open>
  C5, amended. Both column lists are computed from the first row alone. A column is
  categorical exactly when its first-row value is a string or a boolean, and numeric
  exactly when that value is a number or converts to a number. A column whose first-row
  value is a string, a boolean or a number is in at least one list. The lists overlap:
  a column is in both exactly when its first-row value is a boolean or a string that
  converts to a number.
\<close>

theorem column_classes_from_first_row:
  "numericColumns (first # rest) = numericColumns [first] \<and>
   categoricalColumns (first # rest) = categoricalColumns [first] \<and>
   (c \<in> set (categoricalColumns (first # rest)) \<longleftrightarrow>
      c \<in> set (Object_keys first) \<and> (isString (getProp first c) \<or> isBoolean (getProp first c))) \<and>
   (c \<in> set (numericColumns (first # rest)) \<longleftrightarrow>
      c \<in> set (Object_keys first) \<and> (isNumber (getProp first c) \<or> \<not> Number_isNaN (getProp first c))) \<and>
   (c \<in> set (Object_keys first) \<and>
      (isString (getProp first c) \<or> isBoolean (getProp first c) \<or> isNumber (getProp first c)) \<longrightarrow>
      c \<in> set (numericColumns (first # rest)) \<union> set (categoricalColumns (first # rest))) \<and>
   (c \<in> set (numericColumns (first # rest)) \<inter> set (categoricalColumns (first # rest)) \<longleftrightarrow>
      c \<in> set (Object_keys first) \<and>
      (isBoolean (getProp first c) \<or> (\<exists>s. getProp first c = JString s \<and> isNumericString s)))"
proof -
  have n: "c \<in> set (numericColumns (first # rest)) \<longleftrightarrow>
      c \<in> set (Object_keys first) \<and> (isNumber (getProp first c) \<or> \<not> Number_isNaN (getProp first c))"
    by (simp add: numericColumns_def isNumericColumn_def)
  have k: "c \<in> set (categoricalColumns (first # rest)) \<longleftrightarrow>
      c \<in> set (Object_keys first) \<and> (isString (getProp first c) \<or> isBoolean (getProp first c))"
    by (simp add: categoricalColumns_def isCategoricalColumn_def)
  have v: "(isNumber v \<or> \<not> Number_isNaN v) \<and> (isString v \<or> isBoolean v) \<longleftrightarrow>
           isBoolean v \<or> (\<exists>s. v = JString s \<and> isNumericString s)" for v
    by (cases v) simp_all
  have b: "c \<in> set (numericColumns (first # rest)) \<inter> set (categoricalColumns (first # rest)) \<longleftrightarrow>
      c \<in> set (Object_keys first) \<and>
      (isBoolean (getProp first c) \<or> (\<exists>s. getProp first c = JString s \<and> isNumericString s))"
    using n k v [of "getProp first c"] by blast
  have u: "c \<in> set (Object_keys first) \<and>
      (isString (getProp first c) \<or> isBoolean (getProp first c) \<or> isNumber (getProp first c)) \<longrightarrow>
      c \<in> set (numericColumns (first # rest)) \<union> set (categoricalColumns (first # rest))"
    using n k by blast
  have f: "numericColumns (first # rest) = numericColumns [first]"
    "categoricalColumns (first # rest) = categoricalColumns [first]"
    by (simp_all add: numericColumns_def categoricalColumns_def)
  show ?thesis using n k b u f by blast
qed

theorem column_classes_from_first_row_witness:
  "numericColumns [sample_first_row, [(js ''active'', JString (js ''no''))]]
     = [js ''active'', js ''year'', js ''code'', js ''discount'', js ''units''] \<and>
   categoricalColumns [sample_first_row, [(js ''active'', JString (js ''no''))]]
     = [js ''active'', js ''region'', js ''year'', js ''code'']"
proof -
  have n: "numericColumns [sample_first_row] = [js ''active'', js ''year'', js ''code'', js ''discount'', js ''units'']"
    by (simp add: numericColumns_def categoricalColumns_def isNumericColumn_def
        isCategoricalColumn_def Object_keys_def getProp_def isNumericString_def
        isDecimalLiteral_def isNonDecimalLiteral_def isUnsignedDecimal_def isExponentPart_def
        isDigits_def isDigit_def sample_first_row_def string_eval)
  have k: "categoricalColumns [sample_first_row] = [js ''active'', js ''region'', js ''year'', js ''code'']"
    by (simp add: numericColumns_def categoricalColumns_def isNumericColumn_def
        isCategoricalColumn_def Object_keys_def getProp_def isNumericString_def
        isDecimalLiteral_def isNonDecimalLiteral_def isUnsignedDecimal_def isExponentPart_def
        isDigits_def isDigit_def sample_first_row_def string_eval)
  from column_classes_from_first_row [of sample_first_row "[[(js ''active'', JString (js ''no''))]]"] n k
  show ?thesis by simp
qed


section \<open>Cell formatting\<close>

lemma digitsValue_snoc: "digitsValue (ds @ [c]) = 10 * digitsValue ds + (c - 48)"
  by (simp add: digitsValue_def)

lemma decimal_isDecimalOf: "isDecimalOf k (decimal k)"
proof (induction k rule: decimal.induct)
  case (1 n)
  show ?case
  proof (cases "n < 10")
    case True
    then show ?thesis
      by (simp add: decimal.simps [of n] isDecimalOf_def digitsValue_def digitChar_def)
  next
    case False
    let ?ds = "decimal (n div 10)"
    from 1 False have ih: "isDecimalOf (n div 10) ?ds" by simp
    from False have pos: "1 \<le> n div 10" by simp
    have eq: "decimal n = ?ds @ [digitChar (n mod 10)]"
      using False by (simp add: decimal.simps [of n])
    from ih have ne: "?ds \<noteq> []" and dig: "\<forall>c \<in> set ?ds. 48 \<le> c \<and> c \<le> 57"
      and val: "digitsValue ?ds = n div 10" and lead: "1 < length ?ds \<longrightarrow> hd ?ds \<noteq> 48"
      by (simp_all add: isDecimalOf_def)
    have hd0: "hd ?ds \<noteq> 48"
    proof (cases "1 < length ?ds")
      case True
      with lead show ?thesis by simp
    next
      case False
      with ne obtain x where x: "?ds = [x]"
        by (cases ?ds) auto
      with val have "x - 48 = n div 10" by (simp add: digitsValue_def)
      with pos have "x \<noteq> 48" by auto
      with x show ?thesis by simp
    qed
    have "digitsValue (decimal n) = n"
      unfolding eq digitsValue_snoc val by (simp add: digitChar_def)
    moreover have "\<forall>c \<in> set (decimal n). 48 \<le> c \<and> c \<le> 57"
      unfolding eq using dig by (auto simp: digitChar_def)
    moreover have "hd (decimal n) \<noteq> 48"
      unfolding eq using ne hd0 by simp
    moreover have "decimal n \<noteq> []" unfolding eq by simp
    ultimately show ?thesis by (simp add: isDecimalOf_def)
  qed
qed

lemma group3_grouped:
  "ds \<noteq> [] \<Longrightarrow>
   \<exists>g gs. group3 ds = g @ concat (map (\<lambda>x. 44 # x) gs) \<and> 1 \<le> length g \<and> length g \<le> 3 \<and>
          (\<forall>x \<in> set gs. length x = 3) \<and> g @ concat gs = ds"
proof (induction ds rule: group3.induct)
  case (1 ds)
  show ?case
  proof (cases "length ds \<le> 3")
    case True
    have "group3 ds = ds @ concat (map (\<lambda>x. 44 # x) [])"
      using True by (simp add: group3.simps [of ds])
    moreover from "1.prems" have "1 \<le> length ds" by (cases ds) auto
    ultimately show ?thesis using True by (intro exI [of _ ds] exI [of _ "[]"]) simp
  next
    case False
    let ?p = "take (length ds - 3) ds" and ?l = "drop (length ds - 3) ds"
    from False have "?p \<noteq> []" by auto
    with 1 False obtain g gs where
      g: "group3 ?p = g @ concat (map (\<lambda>x. 44 # x) gs)" "1 \<le> length g" "length g \<le> 3"
         "\<forall>x \<in> set gs. length x = 3" "g @ concat gs = ?p"
      by blast
    from False have len: "length ?l = 3" by simp
    have "group3 ds = group3 ?p @ [44] @ ?l"
      using False by (simp add: group3.simps [of ds])
    then have "group3 ds = g @ concat (map (\<lambda>x. 44 # x) (gs @ [?l]))"
      using g(1) by simp
    moreover have "\<forall>x \<in> set (gs @ [?l]). length x = 3"
      using g(4) len by auto
    moreover have "g @ concat (gs @ [?l]) = ds"
      using g(5) by (simp add: append_assoc [symmetric] del: append_assoc)
    ultimately show ?thesis using g(2,3) by blast
  qed
qed

lemma group3_isGroupedDecimalOf: "isGroupedDecimalOf k (group3 (decimal k))"
proof -
  have d: "isDecimalOf k (decimal k)" by (rule decimal_isDecimalOf)
  then have "decimal k \<noteq> []" by (simp add: isDecimalOf_def)
  from group3_grouped [OF this] d show ?thesis
    unfolding isGroupedDecimalOf_def by metis
qed

lemma fixed2_hasTwoDecimals: "hasTwoDecimals n (fixed2 n)"
proof -
  let ?g = "group3 (decimal (n div 100))"
  let ?c1 = "digitChar ((n mod 100) div 10)" and ?c2 = "digitChar (n mod 10)"
  have "n mod 10 = (n mod 100) mod 10"
    by (simp add: mod_mod_cancel)
  then have v: "10 * ((n mod 100) div 10) + n mod 10 = n mod 100"
    by simp
  have "n mod 100 < 10 * 10" "n mod 10 < 10"
    by simp_all
  then have "(n mod 100) div 10 < 10" "n mod 10 < 10"
    by (simp_all only: less_mult_imp_div_less)
  then have r: "(n mod 100) div 10 \<le> 9" "n mod 10 \<le> 9"
    by simp_all
  have "fixed2 n = ?g @ [46, ?c1, ?c2]"
    by (simp add: fixed2_def)
  moreover have "isGroupedDecimalOf (n div 100) ?g"
    by (rule group3_isGroupedDecimalOf)
  moreover have "48 \<le> ?c1 \<and> ?c1 \<le> 57 \<and> 48 \<le> ?c2 \<and> ?c2 \<le> 57"
    using r by (simp add: digitChar_def)
  moreover have "10 * (?c1 - 48) + (?c2 - 48) = n mod 100"
    using v by (simp add: digitChar_def)
  ultimately show ?thesis
    unfolding hasTwoDecimals_def by blast
qed

lemma hundredths_rounds: "roundsToHundredths d e (hundredths d e)"
proof (cases "0 \<le> e")
  case True
  then show ?thesis
    by (simp add: roundsToHundredths_def hundredths_def magnitude_def)
next
  case False
  define D :: nat where "D = 10 ^ nat (- e)"
  define n where "n = (200 * d + D) div (2 * D)"
  have D: "0 < D" by (simp add: D_def)
  have 1: "n * (2 * D) \<le> 200 * d + D"
    unfolding n_def by simp
  have 2: "200 * d + D < (n + 1) * (2 * D)"
    unfolding n_def using D dividend_less_div_times [of "2 * D" "200 * d + D"] by simp
  from 1 have "(of_nat (n * (2 * D)) :: rat) \<le> of_nat (200 * d + D)"
    by (simp only: of_nat_le_iff)
  then have a: "(of_nat n :: rat) \<le> 100 * (of_nat d / of_nat D) + 1 / 2"
    using D by (simp add: field_simps)
  from 2 have "(of_nat (200 * d + D) :: rat) < of_nat ((n + 1) * (2 * D))"
    by (simp only: of_nat_less_iff)
  then have b: "100 * (of_nat d / of_nat D) + 1 / 2 < (of_nat n :: rat) + 1"
    using D by (simp add: field_simps)
  have m: "magnitude d e = of_nat d / of_nat D"
    using False by (simp add: magnitude_def D_def)
  have h: "hundredths d e = n"
    using False by (simp add: hundredths_def n_def D_def)
  show ?thesis unfolding roundsToHundredths_def m h using a b by simp
qed

lemmas number_eval =
  fixed2_def hundredths_def decimal.simps group3.simps digitChar_def minusSign_def

text \<open>
  Some numbers: a tie in the shortest decimal form goes up, the digits of a large number
  are those of its shortest form, a negative number that rounds to zero keeps its minus.
\<close>

lemma number_format_examples:
  "toLocaleString_number (Finite False 12345 (- 1)) = js ''1,234.50''"
  "toLocaleString_currency (Finite False 12345 (- 1)) = js ''$1,234.50''"
  "toLocaleString_number (Finite False 1005 (- 3)) = js ''1.01''"
  "toLocaleString_number (Finite False 1 23) = js ''100,000,000,000,000,000,000,000.00''"
  "toLocaleString_number (Finite True 1 (- 3)) = js ''-0.00''"
  "toLocaleString_currency (Finite True 98765 (- 2)) = js ''-$987.65''"
  "toLocaleString_number (Finite False 0 0) = js ''0.00''"
  by (simp_all add: number_eval string_eval)

lemma isDateColumn_iff: "isDateColumn c \<longleftrightarrow> namesDateTime c"
  by (simp add: isDateColumn_def namesDateTime_def includes_lower_iff)

lemma isCurrencyColumn_iff: "isCurrencyColumn c \<longleftrightarrow> namesMoney c"
  by (simp add: isCurrencyColumn_def namesMoney_def includes_lower_iff)

lemma sample_columns:
  "\<not> namesDateTime (js ''total_revenue'')" "namesMoney (js ''total_revenue'')"
  "\<not> namesDateTime (js ''score'')" "\<not> namesMoney (js ''score'')"
  "namesDateTime (js ''Order_Date'')"
  "\<not> namesDateTime (js ''Unit_Price'')" "namesMoney (js ''Unit_Price'')"
  unfolding isDateColumn_iff [symmetric] isCurrencyColumn_iff [symmetric]
  by (simp_all add: isDateColumn_def isCurrencyColumn_def string_eval)

text \<open>
  C4, as stated, fails: \<open>NaN\<close> is a number, and in a currency column and in a plain
  column it prints without two decimal places. So does an infinity.
\<close>

theorem formatValue_NaN_has_no_decimals:
  "isNumber (JNumber NaN) \<and>
   formatValue sample_host (JNumber NaN) (js ''total_revenue'') = js ''$NaN'' \<and>
   formatValue sample_host (JNumber NaN) (js ''score'') = js ''NaN'' \<and>
   formatValue sample_host (JNumber (Infinity False)) (js ''score'') = [0x221E]"
  using sample_columns
  by (simp add: formatValue_def isDateColumn_iff isCurrencyColumn_iff minusSign_def)

text \<open>
  C4, amended. \<open>formatValue\<close> returns, the first case that applies winning: \<open>N/A\<close> for
  null and undefined; the host's date-time string when the column name contains \<open>date\<close> or
  \<open>time\<close> in any letter case; the string coercion of a value that is not a number; for a
  number in a column whose name contains \<open>amount\<close>, \<open>price\<close>, \<open>revenue\<close> or \<open>total\<close> the
  US-dollar string, and in any other column the en-US number string. For a finite number
  both strings hold the magnitude rounded to hundredths, a tie going up: a minus for a
  negative sign, the dollar sign in the currency case, the integer digits in groups of
  three between commas, a point and exactly two digits. \<open>NaN\<close> prints as \<open>NaN\<close> and an
  infinity as the sign U+221E, behind the same minus and dollar sign and without decimal
  places. The value 1234.5 gives \<open>$1,234.50\<close> in column \<open>total_revenue\<close> and \<open>1,234.50\<close>
  in column \<open>score\<close>; null gives \<open>N/A\<close> in every column.
\<close>

theorem formatValue_cases:
  "(v = JNull \<or> v = JUndefined \<longrightarrow> formatValue h v c = js ''N/A'') \<and>
   (v \<noteq> JNull \<and> v \<noteq> JUndefined \<and> namesDateTime c \<longrightarrow>
      formatValue h v c = dateToLocaleString h v) \<and>
   (v \<noteq> JNull \<and> v \<noteq> JUndefined \<and> \<not> namesDateTime c \<and> \<not> isNumber v \<longrightarrow>
      formatValue h v c = String_js h v) \<and>
   (\<not> namesDateTime c \<and> namesMoney c \<longrightarrow>
      (\<exists>n s. formatValue h (JNumber (Finite sg d e)) c = (if sg then js ''-'' else []) @ js ''$'' @ s \<and>
             roundsToHundredths d e n \<and> hasTwoDecimals n s) \<and>
      formatValue h (JNumber NaN) c = js ''$NaN'' \<and>
      formatValue h (JNumber (Infinity sg)) c = (if sg then js ''-'' else []) @ js ''$'' @ [0x221E]) \<and>
   (\<not> namesDateTime c \<and> \<not> namesMoney c \<longrightarrow>
      (\<exists>n s. formatValue h (JNumber (Finite sg d e)) c = (if sg then js ''-'' else []) @ s \<and>
             roundsToHundredths d e n \<and> hasTwoDecimals n s) \<and>
      formatValue h (JNumber NaN) c = js ''NaN'' \<and>
      formatValue h (JNumber (Infinity sg)) c = (if sg then js ''-'' else []) @ [0x221E]) \<and>
   formatValue h (JNumber (Finite False 12345 (- 1))) (js ''total_revenue'') = js ''$1,234.50'' \<and>
   formatValue h (JNumber (Finite False 12345 (- 1))) (js ''score'') = js ''1,234.50'' \<and>
   formatValue h JNull c = js ''N/A''"
proof -
  have m: "minusSign sg = (if sg then js ''-'' else [])"
    by (simp add: minusSign_def)
  have 1: "v = JNull \<or> v = JUndefined \<longrightarrow> formatValue h v c = js ''N/A''"
    by (auto simp: formatValue_def)
  have 2: "v \<noteq> JNull \<and> v \<noteq> JUndefined \<and> namesDateTime c \<longrightarrow>
      formatValue h v c = dateToLocaleString h v"
    by (simp add: formatValue_def isDateColumn_iff)
  have 3: "v \<noteq> JNull \<and> v \<noteq> JUndefined \<and> \<not> namesDateTime c \<and> \<not> isNumber v \<longrightarrow>
      formatValue h v c = String_js h v"
    by (cases v) (simp_all add: formatValue_def isDateColumn_iff)
  have r: "roundsToHundredths d e (hundredths d e)" "hasTwoDecimals (hundredths d e) (fixed2 (hundredths d e))"
    by (rule hundredths_rounds, rule fixed2_hasTwoDecimals)
  have 4: "\<not> namesDateTime c \<and> namesMoney c \<longrightarrow>
      (\<exists>n s. formatValue h (JNumber (Finite sg d e)) c = (if sg then js ''-'' else []) @ js ''$'' @ s \<and>
             roundsToHundredths d e n \<and> hasTwoDecimals n s) \<and>
      formatValue h (JNumber NaN) c = js ''$NaN'' \<and>
      formatValue h (JNumber (Infinity sg)) c = (if sg then js ''-'' else []) @ js ''$'' @ [0x221E]"
  proof (intro impI conjI)
    assume a: "\<not> namesDateTime c \<and> namesMoney c"
    then have "formatValue h (JNumber (Finite sg d e)) c =
                 (if sg then js ''-'' else []) @ js ''$'' @ fixed2 (hundredths d e)"
      by (simp add: formatValue_def isDateColumn_iff isCurrencyColumn_iff m)
    with r show "\<exists>n s. formatValue h (JNumber (Finite sg d e)) c = (if sg then js ''-'' else []) @ js ''$'' @ s \<and>
             roundsToHundredths d e n \<and> hasTwoDecimals n s"
      by blast
    from a show "formatValue h (JNumber NaN) c = js ''$NaN''"
      by (simp add: formatValue_def isDateColumn_iff isCurrencyColumn_iff)
    from a show "formatValue h (JNumber (Infinity sg)) c = (if sg then js ''-'' else []) @ js ''$'' @ [0x221E]"
      by (simp add: formatValue_def isDateColumn_iff isCurrencyColumn_iff m)
  qed
  have 5: "\<not> namesDateTime c \<and> \<not> namesMoney c \<longrightarrow>
      (\<exists>n s. formatValue h (JNumber (Finite sg d e)) c = (if sg then js ''-'' else []) @ s \<and>
             roundsToHundredths d e n \<and> hasTwoDecimals n s) \<and>
      formatValue h (JNumber NaN) c = js ''NaN'' \<and>
      formatValue h (JNumber (Infinity sg)) c = (if sg then js ''-'' else []) @ [0x221E]"
  proof (intro impI conjI)
    assume a: "\<not> namesDateTime c \<and> \<not> namesMoney c"
    then have "formatValue h (JNumber (Finite sg d e)) c =
                 (if sg then js ''-'' else []) @ fixed2 (hundredths d e)"
      by (simp add: formatValue_def isDateColumn_iff isCurrencyColumn_iff m)
    with r show "\<exists>n s. formatValue h (JNumber (Finite sg d e)) c = (if sg then js ''-'' else []) @ s \<and>
             roundsToHundredths d e n \<and> hasTwoDecimals n s"
      by blast
    from a show "formatValue h (JNumber NaN) c = js ''NaN''"
      by (simp add: formatValue_def isDateColumn_iff isCurrencyColumn_iff)
    from a show "formatValue h (JNumber (Infinity sg)) c = (if sg then js ''-'' else []) @ [0x221E]"
      by (simp add: formatValue_def isDateColumn_iff isCurrencyColumn_iff m)
  qed
  have 6: "formatValue h (JNumber (Finite False 12345 (- 1))) (js ''total_revenue'') = js ''$1,234.50''"
    using sample_columns number_format_examples
    by (simp add: formatValue_def isDateColumn_iff isCurrencyColumn_iff)
  have 7: "formatValue h (JNumber (Finite False 12345 (- 1))) (js ''score'') = js ''1,234.50''"
    using sample_columns number_format_examples
    by (simp add: formatValue_def isDateColumn_iff isCurrencyColumn_iff)
  have 8: "formatValue h JNull c = js ''N/A''"
    by (simp add: formatValue_def)
  show ?thesis
    apply (intro conjI)
           apply (rule 1)
          apply (rule 2)
         apply (rule 3)
        apply (rule 4)
       apply (rule 5)
      apply (rule 6)
     apply (rule 7)
    apply (rule 8)
    done
qed

theorem formatValue_cases_witness:
  "namesDateTime (js ''Order_Date'') \<and>
   formatValue sample_host (JString (js ''2024-01-01'')) (js ''Order_Date'') = js ''1/1/2024, 12:00:00 AM'' \<and>
   formatValue sample_host (JString (js ''n/a'')) (js ''Unit_Price'') = js ''n/a'' \<and>
   formatValue sample_host (JBool True) (js ''score'') = js ''true'' \<and>
   formatValue sample_host JUndefined (js ''score'') = js ''N/A'' \<and>
   formatValue sample_host (JNumber NaN) (js ''Unit_Price'') = js ''$NaN'' \<and>
   formatValue sample_host (JNumber (Infinity True)) (js ''score'') = js ''-'' @ [0x221E] \<and>
   formatValue sample_host (JNumber (Finite False 12345 (- 1))) (js ''total_revenue'') = js ''$1,234.50'' \<and>
   formatValue sample_host (JNumber (Finite False 12345 (- 1))) (js ''score'') = js ''1,234.50''"
proof -
  note sc = sample_columns
  have h: "dateToLocaleString sample_host v = js ''1/1/2024, 12:00:00 AM''" for v
    by (simp add: sample_host_def)
  from formatValue_cases [of "JString (js ''2024-01-01'')" sample_host "js ''Order_Date''"] sc h
  have 1: "formatValue sample_host (JString (js ''2024-01-01'')) (js ''Order_Date'') = js ''1/1/2024, 12:00:00 AM''"
    by simp
  from formatValue_cases [of "JString (js ''n/a'')" sample_host "js ''Unit_Price''"] sc
  have 2: "formatValue sample_host (JString (js ''n/a'')) (js ''Unit_Price'') = js ''n/a''"
    by simp
  from formatValue_cases [of "JBool True" sample_host "js ''score''"] sc
  have 3: "formatValue sample_host (JBool True) (js ''score'') = js ''true''"
    by simp
  from formatValue_cases [of JUndefined sample_host "js ''score''"]
  have 4: "formatValue sample_host JUndefined (js ''score'') = js ''N/A''"
    by simp
  from formatValue_cases [of JNull sample_host "js ''Unit_Price''"] sc
  have 5: "formatValue sample_host (JNumber NaN) (js ''Unit_Price'') = js ''$NaN''"
    by blast
  from formatValue_cases [of JNull sample_host "js ''score''" True] sc
  have 6: "formatValue sample_host (JNumber (Infinity True)) (js ''score'') = js ''-'' @ [0x221E]"
    by simp
  from formatValue_cases [of JNull sample_host "js ''score''"]
  have 7: "formatValue sample_host (JNumber (Finite False 12345 (- 1))) (js ''total_revenue'') = js ''$1,234.50''"
    "formatValue sample_host (JNumber (Finite False 12345 (- 1))) (js ''score'') = js ''1,234.50''"
    by blast+
  show ?thesis using sc(5) 1 2 3 4 5 6 7 by blast
qed

end
